theory Spec2Isabelle
  imports Complex_Main "HOL-Library.AList"
begin

section \<open>Values of the script\<close>

text \<open>
  The payload of a request is what \<^verbatim>\<open>JSON.parse\<close> returns, the cells of the
  sheet are what \<^verbatim>\<open>getValues\<close> returns. A \<open>scalar\<close> is a JavaScript primitive;
  \<open>JUndefined\<close> is the value of a property that is absent. Numbers are the integers
  (marks and counts); a character of a \<open>string\<close> stands for one UTF-16 code unit.
  An object of the script (the payload \<^verbatim>\<open>data\<close>, an entry built by
  \<^verbatim>\<open>rowToObject\<close>) carries scalar properties and the one property \<^verbatim>\<open>skills\<close>
  that may hold a nested object of scalars.
\<close>

datatype scalar = JUndefined | JNull | JBool bool | JNum int | JStr string

datatype jsval = Sc scalar | Obj "(string \<times> scalar) list"

record jsobject =
  props :: "(string \<times> scalar) list"
  skills :: jsval

datatype js_error = TypeError

definition empty_object :: jsobject where
  "empty_object = \<lparr>props = [], skills = Sc JUndefined\<rparr>"

text \<open>\<^verbatim>\<open>obj.name\<close> for a property name other than \<^verbatim>\<open>skills\<close>.\<close>

definition get_prop :: "jsobject \<Rightarrow> string \<Rightarrow> scalar" where
  "get_prop obj k = (case map_of (props obj) k of None \<Rightarrow> JUndefined | Some v \<Rightarrow> v)"

text \<open>\<^verbatim>\<open>obj[key] = v\<close> for a scalar \<open>v\<close>; the key may be computed.\<close>

definition set_prop :: "jsobject \<Rightarrow> string \<Rightarrow> scalar \<Rightarrow> jsobject" where
  "set_prop obj k v =
     (if k = ''skills'' then obj\<lparr>skills := Sc v\<rparr>
      else obj\<lparr>props := AList.update k v (props obj)\<rparr>)"

text \<open>Truthiness: \<^verbatim>\<open>undefined\<close>, \<^verbatim>\<open>null\<close>, \<^verbatim>\<open>false\<close>, \<^verbatim>\<open>0\<close> and \<^verbatim>\<open>''\<close> are falsy.\<close>

fun truthy :: "scalar \<Rightarrow> bool" where
  "truthy JUndefined = False"
| "truthy JNull = False"
| "truthy (JBool b) = b"
| "truthy (JNum n) = (n \<noteq> 0)"
| "truthy (JStr s) = (s \<noteq> [])"

fun truthy_val :: "jsval \<Rightarrow> bool" where
  "truthy_val (Sc v) = truthy v"
| "truthy_val (Obj kvs) = True"

text \<open>\<^verbatim>\<open>a || b\<close>\<close>

definition js_or :: "scalar \<Rightarrow> scalar \<Rightarrow> scalar" where
  "js_or a b = (if truthy a then a else b)"

text \<open>
  \<^verbatim>\<open>v[name]\<close> for one of the skill names: reading a property of \<^verbatim>\<open>undefined\<close> or
  \<^verbatim>\<open>null\<close> throws, a string, number or boolean has no such property.
\<close>

fun index_val :: "jsval \<Rightarrow> string \<Rightarrow> js_error + scalar" where
  "index_val (Sc JUndefined) k = Inl TypeError"
| "index_val (Sc JNull) k = Inl TypeError"
| "index_val (Sc v) k = Inr JUndefined"
| "index_val (Obj kvs) k = Inr (case map_of kvs k of None \<Rightarrow> JUndefined | Some v \<Rightarrow> v)"

section \<open>Configuration\<close>

definition LEARNING_SKILLS :: "string list" where
  "LEARNING_SKILLS =
     [''Responsibility'', ''Organization'', ''Independent Work'',
      ''Collaboration'', ''Initiative'', ''Self-Regulation'']"

section \<open>The sheet\<close>

text \<open>
  The sheet is the grid \<^verbatim>\<open>getDataRange().getValues()\<close> returns: a list of rows, the
  header first; it keeps the values as they were written. The spreadsheet is
  \<open>None\<close> while the tab does not exist. Rows are numbered from 1.
\<close>

type_synonym row = "scalar list"
type_synonym sheet = "row list"

text \<open>\<^verbatim>\<open>row[i]\<close>: reading past the end of an array gives \<^verbatim>\<open>undefined\<close>.\<close>

definition cellAt :: "row \<Rightarrow> nat \<Rightarrow> scalar" where
  "cellAt r i = (if i < length r then r ! i else JUndefined)"

definition getLastRow :: "sheet \<Rightarrow> nat" where
  "getLastRow sh = length sh"

text \<open>\<^verbatim>\<open>sheet.getRange(r, 1, 1, vals.length).setValues([vals])\<close>: the leading cells of
  row \<open>r\<close> are overwritten; a row past the end of the sheet comes into being.\<close>

definition setValues :: "nat \<Rightarrow> row \<Rightarrow> sheet \<Rightarrow> sheet" where
  "setValues r vals sh =
     (if r - 1 < length sh then sh[r - 1 := vals @ drop (length vals) (sh ! (r - 1))]
      else sh @ replicate (r - 1 - length sh) [] @ [vals])"

definition appendRow :: "sheet \<Rightarrow> row \<Rightarrow> sheet" where
  "appendRow sh vals = sh @ [vals]"

definition getHeaders :: "string list" where
  "getHeaders =
     [''Timestamp'', ''Teacher Email'', ''Teacher Name'', ''Course'', ''Student Name'',
      ''Percentage Mark'', ''Classes Missed'', ''Times Late'']
     @ LEARNING_SKILLS @ [''Comment'', ''Last Modified'']"

text \<open>Formatting, column widths and the frozen row leave the values alone.\<close>

definition setupSheetHeaders :: "sheet \<Rightarrow> sheet" where
  "setupSheetHeaders sh = setValues 1 (map JStr getHeaders) sh"

definition getOrCreateSheet :: "sheet option \<Rightarrow> sheet" where
  "getOrCreateSheet ss =
     (case ss of
        None \<Rightarrow> setupSheetHeaders []
      | Some sh \<Rightarrow> if getLastRow sh = 0 then setupSheetHeaders sh else sh)"

text \<open>The loop of \<^verbatim>\<open>findStudentRow\<close>, from index \<open>i\<close> on, over the rows left.\<close>

fun scanRows :: "row list \<Rightarrow> nat \<Rightarrow> scalar \<Rightarrow> scalar \<Rightarrow> nat" where
  "scanRows [] i studentName courseName = 0"
| "scanRows (r # rs) i studentName courseName =
     (if cellAt r 4 = studentName \<and> cellAt r 3 = courseName then i + 1
      else scanRows rs (i + 1) studentName courseName)"

definition findStudentRow :: "sheet \<Rightarrow> scalar \<Rightarrow> scalar \<Rightarrow> nat" where
  "findStudentRow sh studentName courseName = scanRows (drop 1 sh) 1 studentName courseName"

section \<open>Saving an entry\<close>

text \<open>The loop that pushes one cell per learning skill.\<close>

fun pushSkills :: "jsval \<Rightarrow> string list \<Rightarrow> row \<Rightarrow> js_error + row" where
  "pushSkills sk [] rowData = Inr rowData"
| "pushSkills sk (skill # rest) rowData =
     (case index_val sk skill of
        Inl e \<Rightarrow> Inl e
      | Inr v \<Rightarrow> pushSkills sk rest (rowData @ [js_or v (JStr '''')]))"

text \<open>
  The row of \<^verbatim>\<open>saveGradeEntry\<close>. The clock is read twice: \<open>fst clock\<close> is the
  reading that stands in for an absent timestamp, \<open>snd clock\<close> the one of
  \<^verbatim>\<open>Last Modified\<close>.
\<close>

definition buildRowData :: "string \<times> string \<Rightarrow> jsobject \<Rightarrow> js_error + row" where
  "buildRowData clock data =
     (case pushSkills (skills data) LEARNING_SKILLS
        [js_or (get_prop data ''timestamp'') (JStr (fst clock)),
         get_prop data ''teacher'',
         get_prop data ''teacherName'',
         js_or (get_prop data ''course'') (JStr ''''),
         get_prop data ''student'',
         js_or (get_prop data ''percentageMark'') (JStr ''''),
         js_or (get_prop data ''classesMissed'') (JStr ''''),
         js_or (get_prop data ''timesLate'') (JStr '''')] of
        Inl e \<Rightarrow> Inl e
      | Inr rowData \<Rightarrow> Inr (rowData @ [get_prop data ''comment''] @ [JStr (snd clock)]))"

record save_result =
  success :: bool
  action :: string
  student :: scalar
  course :: scalar

definition saveGradeEntry ::
  "string \<times> string \<Rightarrow> sheet option \<Rightarrow> jsobject \<Rightarrow> sheet \<times> (js_error + save_result)" where
  "saveGradeEntry clock ss data =
     (let sheet = getOrCreateSheet ss;
          existingRow = findStudentRow sheet (get_prop data ''student'') (get_prop data ''course'')
      in case buildRowData clock data of
           Inl e \<Rightarrow> (sheet, Inl e)
         | Inr rowData \<Rightarrow>
             if existingRow > 0 then
               (setValues existingRow rowData sheet,
                Inr \<lparr>success = True, action = ''updated'',
                     student = get_prop data ''student'', course = get_prop data ''course''\<rparr>)
             else
               (appendRow sheet rowData,
                Inr \<lparr>success = True, action = ''created'',
                     student = get_prop data ''student'', course = get_prop data ''course''\<rparr>))"

text \<open>
  \<^verbatim>\<open>doPost\<close> on a payload that parsed: the answer is the result of
  \<^verbatim>\<open>saveGradeEntry\<close>, or the envelope \<^verbatim>\<open>{success: false, error: message}\<close> of the fault
  that was caught.
\<close>

datatype response = Saved save_result | Failed js_error

definition doPost :: "string \<times> string \<Rightarrow> sheet option \<Rightarrow> jsobject \<Rightarrow> sheet \<times> response" where
  "doPost clock ss data =
     (case saveGradeEntry clock ss data of
        (sh, Inl error) \<Rightarrow> (sh, Failed error)
      | (sh, Inr result) \<Rightarrow> (sh, Saved result))"

section \<open>Reading entries\<close>

text \<open>\<^verbatim>\<open>header.toLowerCase().replace(/ /g, '_')\<close>, on the letters A to Z.\<close>

definition lower_char :: "char \<Rightarrow> char" where
  "lower_char c =
     (let n = (of_char c :: nat) in if 65 \<le> n \<and> n \<le> 90 then char_of (n + 32) else c)"

definition toLowerCase :: "string \<Rightarrow> string" where
  "toLowerCase s = map lower_char s"

definition replaceSpaces :: "string \<Rightarrow> string" where
  "replaceSpaces s = map (\<lambda>c. if c = CHR '' '' then CHR ''_'' else c) s"

definition headerKey :: "string \<Rightarrow> string" where
  "headerKey header = replaceSpaces (toLowerCase header)"

text \<open>
  \<^verbatim>\<open>if (!obj.skills) obj.skills = {}; obj.skills[header] = v\<close>. Writing a property of
  a string, number or boolean is ignored.
\<close>

definition setSkill :: "jsobject \<Rightarrow> string \<Rightarrow> scalar \<Rightarrow> jsobject" where
  "setSkill obj header v =
     (let obj1 = (if \<not> truthy_val (skills obj) then obj\<lparr>skills := Obj []\<rparr> else obj)
      in case skills obj1 of
           Obj kvs \<Rightarrow> obj1\<lparr>skills := Obj (AList.update header v kvs)\<rparr>
         | Sc u \<Rightarrow> obj1)"

text \<open>
  The loop of \<^verbatim>\<open>rowToObject\<close>, from index \<open>i\<close> on, over the headers left. A
  header that is not a string is no member of the skills and has no
  \<^verbatim>\<open>toLowerCase\<close>: the call throws.
\<close>

fun rowToObjectFrom :: "row \<Rightarrow> row \<Rightarrow> nat \<Rightarrow> jsobject \<Rightarrow> js_error + jsobject" where
  "rowToObjectFrom [] r i obj = Inr obj"
| "rowToObjectFrom (header # rest) r i obj =
     (case header of
        JStr h \<Rightarrow>
          rowToObjectFrom rest r (i + 1)
            (if h \<in> set LEARNING_SKILLS then setSkill obj h (cellAt r i)
             else set_prop obj (headerKey h) (cellAt r i))
      | _ \<Rightarrow> Inl TypeError)"

definition rowToObject :: "row \<Rightarrow> row \<Rightarrow> js_error + jsobject" where
  "rowToObject headers r = rowToObjectFrom headers r 0 empty_object"

text \<open>\<^verbatim>\<open>rows.map(row => rowToObject(headers, row))\<close>, which stops at the first throw.\<close>

fun mapRows :: "row \<Rightarrow> row list \<Rightarrow> js_error + jsobject list" where
  "mapRows headers [] = Inr []"
| "mapRows headers (r # rs) =
     (case rowToObject headers r of
        Inl e \<Rightarrow> Inl e
      | Inr obj \<Rightarrow>
          (case mapRows headers rs of
             Inl e \<Rightarrow> Inl e
           | Inr objs \<Rightarrow> Inr (obj # objs)))"

text \<open>
  The three reads return \<^verbatim>\<open>{success: true, entries: entries}\<close>; the model returns the
  sheet, which \<^verbatim>\<open>getOrCreateSheet\<close> may have set up, and the entries.
\<close>

definition getAllEntries :: "sheet option \<Rightarrow> sheet \<times> (js_error + jsobject list)" where
  "getAllEntries ss =
     (let sheet = getOrCreateSheet ss; data = sheet
      in if length data \<le> 1 then (sheet, Inr [])
         else (sheet, mapRows (data ! 0) (drop 1 data)))"

definition getEntriesByTeacher ::
  "sheet option \<Rightarrow> scalar \<Rightarrow> sheet \<times> (js_error + jsobject list)" where
  "getEntriesByTeacher ss teacherEmail =
     (case getAllEntries ss of
        (sheet, Inl e) \<Rightarrow> (sheet, Inl e)
      | (sheet, Inr entries) \<Rightarrow>
          (sheet, Inr (filter (\<lambda>entry. get_prop entry ''teacher_email'' = teacherEmail) entries)))"

definition getEntriesByStudent ::
  "sheet option \<Rightarrow> scalar \<Rightarrow> sheet \<times> (js_error + jsobject list)" where
  "getEntriesByStudent ss studentName =
     (case getAllEntries ss of
        (sheet, Inl e) \<Rightarrow> (sheet, Inl e)
      | (sheet, Inr entries) \<Rightarrow>
          (sheet, Inr (filter (\<lambda>entry. get_prop entry ''student'' = studentName) entries)))"

section \<open>Export and summary\<close>

text \<open>The decimal digits of a number, for \<^verbatim>\<open>String\<close> on an integer.\<close>

fun nat_digits :: "nat \<Rightarrow> string" where
  "nat_digits n =
     (if n < 10 then [char_of (48 + n)]
      else nat_digits (n div 10) @ [char_of (48 + n mod 10)])"

declare nat_digits.simps [simp del]

text \<open>\<^verbatim>\<open>String(v)\<close>\<close>

fun js_String :: "scalar \<Rightarrow> string" where
  "js_String JUndefined = ''undefined''"
| "js_String JNull = ''null''"
| "js_String (JBool b) = (if b then ''true'' else ''false'')"
| "js_String (JNum n) = (if n < 0 then CHR ''-'' # nat_digits (nat (- n)) else nat_digits (nat n))"
| "js_String (JStr s) = s"

text \<open>\<^verbatim>\<open>str.replace(/"/g, '""')\<close>\<close>

fun doubleQuotes :: "string \<Rightarrow> string" where
  "doubleQuotes [] = []"
| "doubleQuotes (c # cs) =
     (if c = CHR 0x22 then CHR 0x22 # CHR 0x22 # doubleQuotes cs else c # doubleQuotes cs)"

definition csvCell :: "scalar \<Rightarrow> string" where
  "csvCell cell =
     (let str = js_String cell
      in if CHR '','' \<in> set str \<or> CHR 0x22 \<in> set str \<or> CHR 0x0A \<in> set str
         then [CHR 0x22] @ doubleQuotes str @ [CHR 0x22]
         else str)"

text \<open>\<^verbatim>\<open>cells.join(',')\<close>\<close>

fun joinComma :: "string list \<Rightarrow> string" where
  "joinComma [] = []"
| "joinComma [x] = x"
| "joinComma (x # y # ys) = x @ [CHR '',''] @ joinComma (y # ys)"

text \<open>The loop \<^verbatim>\<open>for (const row of data) csv += ... + '\n'\<close>.\<close>

fun csvLoop :: "row list \<Rightarrow> string \<Rightarrow> string" where
  "csvLoop [] csv = csv"
| "csvLoop (r # rs) csv = csvLoop rs (csv @ joinComma (map csvCell r) @ [CHR 0x0A])"

definition exportToCsv :: "sheet option \<Rightarrow> sheet \<times> string" where
  "exportToCsv ss = (let sheet = getOrCreateSheet ss; data = sheet in (sheet, csvLoop data []))"

text \<open>A number of the summary: finite, or \<^verbatim>\<open>NaN\<close>.\<close>

datatype jsnumber = Finite int | NaN

text \<open>\<^verbatim>\<open>v.length\<close>: the length of a string (\<open>Some\<close>), \<^verbatim>\<open>undefined\<close> (\<open>None\<close>) for a number
  or a boolean, a throw for \<^verbatim>\<open>undefined\<close> and \<^verbatim>\<open>null\<close>.\<close>

fun js_length :: "scalar \<Rightarrow> js_error + int option" where
  "js_length JUndefined = Inl TypeError"
| "js_length JNull = Inl TypeError"
| "js_length (JStr s) = Inr (Some (int (length s)))"
| "js_length v = Inr None"

text \<open>\<^verbatim>\<open>total + len\<close>, where \<open>len\<close> is a number or \<^verbatim>\<open>undefined\<close>.\<close>

fun addLength :: "jsnumber \<Rightarrow> int option \<Rightarrow> jsnumber" where
  "addLength (Finite t) (Some n) = Finite (t + n)"
| "addLength t len = NaN"

text \<open>\<^verbatim>\<open>Math.round(x)\<close> is the floor of \<open>x + 1/2\<close>.\<close>

definition Math_round :: "rat \<Rightarrow> int" where
  "Math_round x = \<lfloor>x + 1 / 2\<rfloor>"

text \<open>\<^verbatim>\<open>Math.round(total / n)\<close> for a positive count \<open>n\<close>.\<close>

fun roundQuotient :: "jsnumber \<Rightarrow> nat \<Rightarrow> jsnumber" where
  "roundQuotient (Finite t) n = Finite (Math_round (rat_of_int t / rat_of_nat n))"
| "roundQuotient NaN n = NaN"

text \<open>\<^verbatim>\<open>if (!counts[k]) counts[k] = 0; counts[k]++\<close> on an object of counts, for a key
  that is no member of \<^verbatim>\<open>Object.prototype\<close>.\<close>

definition countUp :: "(string \<times> nat) list \<Rightarrow> string \<Rightarrow> (string \<times> nat) list" where
  "countUp counts k =
     (let counts1 = (case map_of counts k of
                       None \<Rightarrow> AList.update k 0 counts
                     | Some c \<Rightarrow> if c = 0 then AList.update k 0 counts else counts)
      in AList.update k (case map_of counts1 k of None \<Rightarrow> 0 | Some c \<Rightarrow> c + 1) counts1)"

record summary =
  totalEntries :: nat
  byTeacher :: "(string \<times> nat) list"
  byGrade :: "(string \<times> nat) list"
  averageCommentLength :: jsnumber

text \<open>The loop over the entries; the state is the summary and \<^verbatim>\<open>totalCommentLength\<close>.\<close>

fun summaryLoop :: "jsobject list \<Rightarrow> summary \<times> jsnumber \<Rightarrow> js_error + summary \<times> jsnumber" where
  "summaryLoop [] st = Inr st"
| "summaryLoop (entry # rest) (summ, totalCommentLength) =
     (case js_length (js_or (get_prop entry ''comment'') (JStr '''')) of
        Inl e \<Rightarrow> Inl e
      | Inr len \<Rightarrow>
          summaryLoop rest
            (summ\<lparr>byTeacher := countUp (byTeacher summ) (js_String (get_prop entry ''teacher_name'')),
                  byGrade := countUp (byGrade summ) (js_String (get_prop entry ''grade''))\<rparr>,
             addLength totalCommentLength len))"

definition summarize :: "jsobject list \<Rightarrow> js_error + summary" where
  "summarize entries =
     (case summaryLoop entries
             (\<lparr>totalEntries = length entries, byTeacher = [], byGrade = [],
               averageCommentLength = Finite 0\<rparr>, Finite 0) of
        Inl e \<Rightarrow> Inl e
      | Inr (summ, totalCommentLength) \<Rightarrow>
          Inr (summ\<lparr>averageCommentLength :=
                      (if length entries > 0 then roundQuotient totalCommentLength (length entries)
                       else Finite 0)\<rparr>))"

definition generateSummaryReport :: "sheet option \<Rightarrow> sheet \<times> (js_error + summary)" where
  "generateSummaryReport ss =
     (case getAllEntries ss of
        (sheet, Inl e) \<Rightarrow> (sheet, Inl e)
      | (sheet, Inr entries) \<Rightarrow> (sheet, summarize entries))"

section \<open>Validation\<close>

fun typeof :: "jsval \<Rightarrow> string" where
  "typeof (Sc JUndefined) = ''undefined''"
| "typeof (Sc JNull) = ''object''"
| "typeof (Sc (JBool b)) = ''boolean''"
| "typeof (Sc (JNum n)) = ''number''"
| "typeof (Sc (JStr s)) = ''string''"
| "typeof (Obj kvs) = ''object''"

text \<open>The loop over the skills, one message per rating that is missing.\<close>

fun checkSkills :: "jsval \<Rightarrow> string list \<Rightarrow> string list \<Rightarrow> js_error + string list" where
  "checkSkills sk [] errors = Inr errors"
| "checkSkills sk (skill # rest) errors =
     (case index_val sk skill of
        Inl e \<Rightarrow> Inl e
      | Inr v \<Rightarrow>
          checkSkills sk rest
            (if \<not> truthy v then errors @ [skill @ '' rating is required''] else errors))"

text \<open>\<^verbatim>\<open>len > 500\<close>, false when \<open>len\<close> is \<^verbatim>\<open>undefined\<close>.\<close>

definition exceeds :: "int option \<Rightarrow> int \<Rightarrow> bool" where
  "exceeds len k = (case len of None \<Rightarrow> False | Some n \<Rightarrow> n > k)"

definition checkComment :: "scalar \<Rightarrow> string list \<Rightarrow> js_error + string list" where
  "checkComment comment errors =
     (if \<not> truthy comment then Inr (errors @ [''Comment is required''])
      else case js_length comment of
             Inl e \<Rightarrow> Inl e
           | Inr len \<Rightarrow>
               if exceeds len 500 then Inr (errors @ [''Comment must be 500 characters or less''])
               else Inr errors)"

definition validateData :: "jsobject \<Rightarrow> js_error + string list" where
  "validateData data =
     (let errors = [];
          errors = (if \<not> truthy (get_prop data ''teacher'')
                    then errors @ [''Teacher email is required''] else errors);
          errors = (if \<not> truthy (get_prop data ''student'')
                    then errors @ [''Student name is required''] else errors);
          errors = (if \<not> truthy (get_prop data ''grade'')
                    then errors @ [''Grade is required''] else errors)
      in case (if \<not> truthy_val (skills data) \<or> typeof (skills data) \<noteq> ''object''
               then Inr (errors @ [''Learning skills are required''])
               else checkSkills (skills data) LEARNING_SKILLS errors) of
           Inl e \<Rightarrow> Inl e
         | Inr errors \<Rightarrow> checkComment (get_prop data ''comment'') errors)"

section \<open>Notions of the properties, and example inputs\<close>

text \<open>The entry of \<^verbatim>\<open>testSaveEntry\<close>, and the row it is saved as.\<close>

definition testData :: "string \<Rightarrow> jsobject" where
  "testData now =
     \<lparr>props =
        [(''teacher'', JStr ''teacher1@school.edu''),
         (''teacherName'', JStr ''Ms. Johnson''),
         (''course'', JStr ''Math 7A''),
         (''student'', JStr ''Test Student''),
         (''percentageMark'', JNum 85),
         (''classesMissed'', JNum 2),
         (''timesLate'', JNum 1),
         (''comment'', JStr ''This is a test comment for the report card entry system.''),
         (''timestamp'', JStr now)],
      skills =
        Obj [(''Responsibility'', JStr ''Excellent''),
             (''Organization'', JStr ''Good''),
             (''Independent Work'', JStr ''Excellent''),
             (''Collaboration'', JStr ''Satisfactory''),
             (''Initiative'', JStr ''Good''),
             (''Self-Regulation'', JStr ''Excellent'')]\<rparr>"

definition testRow :: "string \<Rightarrow> string \<Rightarrow> row" where
  "testRow now modified =
     [JStr now, JStr ''teacher1@school.edu'', JStr ''Ms. Johnson'', JStr ''Math 7A'',
      JStr ''Test Student'', JNum 85, JNum 2, JNum 1,
      JStr ''Excellent'', JStr ''Good'', JStr ''Excellent'', JStr ''Satisfactory'',
      JStr ''Good'', JStr ''Excellent'',
      JStr ''This is a test comment for the report card entry system.'', JStr modified]"

text \<open>The messages of a list that are about the comment.\<close>

definition commentErrors :: "string list \<Rightarrow> string list" where
  "commentErrors errs =
     filter (\<lambda>m. m = ''Comment is required'' \<or> m = ''Comment must be 500 characters or less'') errs"

text \<open>A payload whose comment has \<open>n\<close> characters.\<close>

definition payload500 :: "nat \<Rightarrow> jsobject" where
  "payload500 n = (testData ''2024-01-01T00:00:00.000Z'')
     \<lparr>props := [(''teacher'', JStr ''teacher1@school.edu''), (''student'', JStr ''Test Student''),
                 (''comment'', JStr (replicate n CHR ''a''))]\<rparr>"

text \<open>The rule of the export in the words of its description: which cells are quoted,
  how a quoted cell reads, how a line and the whole text are put together.\<close>

definition needsQuoting :: "string \<Rightarrow> bool" where
  "needsQuoting s = (CHR '','' \<in> set s \<or> CHR 0x22 \<in> set s \<or> CHR 0x0A \<in> set s)"

definition quotedField :: "string \<Rightarrow> string" where
  "quotedField s =
     (if needsQuoting s
      then CHR 0x22 # concat (map (\<lambda>c. if c = CHR 0x22 then [CHR 0x22, CHR 0x22] else [c]) s)
             @ [CHR 0x22]
      else s)"

definition csvLine :: "row \<Rightarrow> string" where
  "csvLine r =
     (case map (\<lambda>cell. quotedField (js_String cell)) r of
        [] \<Rightarrow> []
      | f # fs \<Rightarrow> f @ concat (map (\<lambda>g. CHR '','' # g) fs))
     @ [CHR 0x0A]"

definition csvText :: "sheet \<Rightarrow> string" where
  "csvText rows = concat (map csvLine rows)"

text \<open>The entry that \<^verbatim>\<open>rowToObject\<close> builds from a row under the headers of
  \<^verbatim>\<open>getHeaders\<close>.\<close>

definition entryOfRow :: "row \<Rightarrow> jsobject" where
  "entryOfRow r =
     \<lparr>props =
        [(''timestamp'', cellAt r 0), (''teacher_email'', cellAt r 1),
         (''teacher_name'', cellAt r 2), (''course'', cellAt r 3),
         (''student_name'', cellAt r 4), (''percentage_mark'', cellAt r 5),
         (''classes_missed'', cellAt r 6), (''times_late'', cellAt r 7),
         (''comment'', cellAt r 14), (''last_modified'', cellAt r 15)],
      skills =
        Obj [(''Responsibility'', cellAt r 8), (''Organization'', cellAt r 9),
             (''Independent Work'', cellAt r 10), (''Collaboration'', cellAt r 11),
             (''Initiative'', cellAt r 12), (''Self-Regulation'', cellAt r 13)]\<rparr>"

text \<open>A sheet that holds the header row and the row of the test entry.\<close>

definition testSheet :: sheet where
  "testSheet =
     [map JStr getHeaders,
      testRow ''2024-01-01T00:00:00.000Z'' ''2024-01-01T00:00:05.001Z'']"

text \<open>An entry mapped to its row and back: \<^verbatim>\<open>rowToObject(getHeaders(), rowData)\<close> for the
  \<^verbatim>\<open>rowData\<close> of \<^verbatim>\<open>saveGradeEntry\<close>.\<close>

definition roundTrip :: "string \<times> string \<Rightarrow> jsobject \<Rightarrow> js_error + jsobject" where
  "roundTrip clock data =
     (case buildRowData clock data of
        Inl e \<Rightarrow> Inl e
      | Inr rowData \<Rightarrow> rowToObject (map JStr getHeaders) rowData)"

text \<open>\<^verbatim>\<open>obj.skills[name]\<close> of a skills object.\<close>

definition rating :: "(string \<times> scalar) list \<Rightarrow> string \<Rightarrow> scalar" where
  "rating sk k = (case map_of sk k of None \<Rightarrow> JUndefined | Some v \<Rightarrow> v)"

text \<open>The length of the comment of an entry, 0 for a comment that is absent; and the
  entries whose comment is a string, or absent (or another falsy value).\<close>

definition commentLength :: "jsobject \<Rightarrow> nat" where
  "commentLength entry = (case get_prop entry ''comment'' of JStr s \<Rightarrow> length s | _ \<Rightarrow> 0)"

definition textComment :: "jsobject \<Rightarrow> bool" where
  "textComment entry = (case get_prop entry ''comment'' of JStr s \<Rightarrow> True | v \<Rightarrow> \<not> truthy v)"

text \<open>The row of the test entry with a comment of \<open>n\<close> characters, and a sheet of three
  such rows.\<close>

definition commentRow :: "nat \<Rightarrow> row" where
  "commentRow n =
     (testRow ''2024-01-01T00:00:00.000Z'' ''2024-01-01T00:00:05.001Z'')
       [14 := JStr (replicate n CHR ''c'')]"

definition summarySheet :: sheet where
  "summarySheet = map JStr getHeaders # map commentRow [10, 20, 30]"

text \<open>Two submissions for the student \<^verbatim>\<open>A\<close> that carry no course.\<close>

definition noCourse :: "int \<Rightarrow> jsobject" where
  "noCourse mark =
     \<lparr>props = [(''teacher'', JStr ''t@school.edu''), (''student'', JStr ''A''),
               (''percentageMark'', JNum mark), (''comment'', JStr ''ok'')],
      skills = Obj [(''Responsibility'', JStr ''Good'')]\<rparr>"

definition noCourseRow :: "int \<Rightarrow> string \<times> string \<Rightarrow> row" where
  "noCourseRow mark clock =
     [JStr (fst clock), JStr ''t@school.edu'', JUndefined, JStr '''', JStr ''A'',
      js_or (JNum mark) (JStr ''''), JStr '''', JStr '''',
      JStr ''Good'', JStr '''', JStr '''', JStr '''', JStr '''', JStr '''',
      JStr ''ok'', JStr (snd clock)]"

text \<open>The rows of a student and course; and a sequence of submissions, each with its
  readings of the clock, saved one after the other.\<close>

definition keyIs :: "string \<Rightarrow> string \<Rightarrow> row \<Rightarrow> bool" where
  "keyIs s c r = (cellAt r 4 = JStr s \<and> cellAt r 3 = JStr c)"

fun saveAll :: "sheet option \<Rightarrow> ((string \<times> string) \<times> jsobject) list \<Rightarrow> sheet option" where
  "saveAll ss [] = ss"
| "saveAll ss (x # xs) = saveAll (Some (fst (saveGradeEntry (fst x) ss (snd x)))) xs"

text \<open>A submission for the student \<open>s\<close> and the course \<open>c\<close>, both strings, whose skills
  can be read.\<close>

definition submissionFor :: "string \<Rightarrow> string \<Rightarrow> jsobject \<Rightarrow> bool" where
  "submissionFor s c data =
     (get_prop data ''student'' = JStr s \<and> get_prop data ''course'' = JStr c
      \<and> skills data \<noteq> Sc JUndefined \<and> skills data \<noteq> Sc JNull)"

text \<open>
  An entry with every field that \<^verbatim>\<open>validateData\<close> asks for, the grade too, and a
  comment of \<open>n\<close> characters, with the row it is saved as; and an entry that holds
  nothing but an empty skills object, with its row.
\<close>

definition gradedEntry :: "nat \<Rightarrow> jsobject" where
  "gradedEntry n =
     \<lparr>props =
        [(''teacher'', JStr ''teacher1@school.edu''),
         (''teacherName'', JStr ''Ms. Johnson''),
         (''course'', JStr ''Math 7A''),
         (''student'', JStr ''Test Student''),
         (''grade'', JStr ''7''),
         (''percentageMark'', JNum 85),
         (''classesMissed'', JNum 2),
         (''timesLate'', JNum 1),
         (''comment'', JStr (replicate n CHR ''a'')),
         (''timestamp'', JStr ''2024-01-01T00:00:00.000Z'')],
      skills =
        Obj [(''Responsibility'', JStr ''Excellent''),
             (''Organization'', JStr ''Good''),
             (''Independent Work'', JStr ''Excellent''),
             (''Collaboration'', JStr ''Satisfactory''),
             (''Initiative'', JStr ''Good''),
             (''Self-Regulation'', JStr ''Excellent'')]\<rparr>"

definition gradedRow :: "nat \<Rightarrow> string \<Rightarrow> row" where
  "gradedRow n modified =
     [JStr ''2024-01-01T00:00:00.000Z'', JStr ''teacher1@school.edu'', JStr ''Ms. Johnson'',
      JStr ''Math 7A'', JStr ''Test Student'', JNum 85, JNum 2, JNum 1,
      JStr ''Excellent'', JStr ''Good'', JStr ''Excellent'', JStr ''Satisfactory'',
      JStr ''Good'', JStr ''Excellent'',
      JStr (replicate n CHR ''a''), JStr modified]"

definition blankEntry :: jsobject where
  "blankEntry = \<lparr>props = [], skills = Obj []\<rparr>"

definition blankRow :: "string \<times> string \<Rightarrow> row" where
  "blankRow clock =
     [JStr (fst clock), JUndefined, JUndefined, JStr '''', JUndefined,
      JStr '''', JStr '''', JStr '''',
      JStr '''', JStr '''', JStr '''', JStr '''', JStr '''', JStr '''',
      JUndefined, JStr (snd clock)]"

section \<open>Properties\<close>

subsection \<open>The row of an entry\<close>

lemma pushSkills_Obj:
  "pushSkills (Obj kvs) ks acc =
     Inr (acc @ map (\<lambda>k. js_or (case map_of kvs k of None \<Rightarrow> JUndefined | Some v \<Rightarrow> v) (JStr '''')) ks)"
  by (induction ks arbitrary: acc) auto

lemma pushSkills_length:
  "pushSkills sk ks acc = Inr r \<Longrightarrow> length r = length acc + length ks"
  by (induction ks arbitrary: acc) (auto split: sum.splits)

lemma length_LEARNING_SKILLS: "length LEARNING_SKILLS = 6"
  by (simp add: LEARNING_SKILLS_def)

lemma length_getHeaders: "length getHeaders = 16"
  by (simp add: getHeaders_def length_LEARNING_SKILLS)

lemma buildRowData_length:
  "buildRowData clock data = Inr rowData \<Longrightarrow> length rowData = 16"
  by (auto simp: buildRowData_def length_LEARNING_SKILLS split: sum.splits dest: pushSkills_length)

lemma scanRows_bounds:
  "scanRows rs i s c = k \<Longrightarrow> 0 < k \<Longrightarrow>
     i < k \<and> k \<le> i + length rs \<and> cellAt (rs ! (k - i - 1)) 4 = s \<and> cellAt (rs ! (k - i - 1)) 3 = c"
proof (induction rs arbitrary: i)
  case Nil
  then show ?case by simp
next
  case (Cons r rs)
  show ?case
  proof (cases "cellAt r 4 = s \<and> cellAt r 3 = c")
    case True
    with Cons.prems show ?thesis by auto
  next
    case False
    with Cons.prems have "scanRows rs (i + 1) s c = k" by auto
    from Cons.IH[OF this Cons.prems(2)] have
      "i + 1 < k" "k \<le> i + 1 + length rs" "cellAt (rs ! (k - (i + 1) - 1)) 4 = s" "cellAt (rs ! (k - (i + 1) - 1)) 3 = c"
      by auto
    moreover from \<open>i + 1 < k\<close> have "(r # rs) ! (k - i - 1) = rs ! (k - (i + 1) - 1)"
      by (simp add: nth_Cons')
    ultimately show ?thesis by auto
  qed
qed

lemma getOrCreateSheet_eq:
  "getOrCreateSheet ss =
     (case ss of None \<Rightarrow> [map JStr getHeaders]
      | Some sh \<Rightarrow> if sh = [] then [map JStr getHeaders] else sh)"
  by (simp add: getOrCreateSheet_def setupSheetHeaders_def setValues_def getLastRow_def
      split: option.splits)

lemma getOrCreateSheet_nonempty: "getOrCreateSheet ss \<noteq> []"
  by (simp add: getOrCreateSheet_eq split: option.splits)

lemma findStudentRow_bounds:
  assumes "findStudentRow sh s c = k" and "0 < k"
  shows "2 \<le> k \<and> k \<le> length sh \<and> cellAt (sh ! (k - 1)) 4 = s \<and> cellAt (sh ! (k - 1)) 3 = c"
proof -
  from assms have sc: "scanRows (drop 1 sh) 1 s c = k" by (simp add: findStudentRow_def)
  from scanRows_bounds[OF sc assms(2)] have
    b: "1 < k" "k \<le> 1 + length (drop 1 sh)"
    and m: "cellAt (drop 1 sh ! (k - 1 - 1)) 4 = s" "cellAt (drop 1 sh ! (k - 1 - 1)) 3 = c"
    by auto
  from b have le: "k \<le> length sh" by (cases sh) auto
  from b have "1 + (k - 1 - 1) = k - 1" by arith
  with b le have "drop 1 sh ! (k - 1 - 1) = sh ! (k - 1)" by (simp del: One_nat_def)
  with m b le show ?thesis by auto
qed

text \<open>
  Claim C10. Every row that \<^verbatim>\<open>saveGradeEntry\<close> writes, appended or put in the place of
  an existing one, has as many cells as the header row of \<^verbatim>\<open>getHeaders\<close>: 8 fixed
  columns, one per learning skill, Comment and Last Modified, 16 in all. A sheet whose
  rows all have that many cells keeps the shape.
\<close>

theorem saveGradeEntry_row_width:
  assumes "saveGradeEntry clock ss data = (sh', Inr res)"
  shows "\<exists>rowData. buildRowData clock data = Inr rowData
      \<and> length rowData = length getHeaders
      \<and> length getHeaders = 8 + length LEARNING_SKILLS + 2
      \<and> length getHeaders = 16
      \<and> (let sheet = getOrCreateSheet ss;
              k = findStudentRow sheet (get_prop data ''student'') (get_prop data ''course'')
         in if k = 0 then action res = ''created'' \<and> sh' = sheet @ [rowData]
            else action res = ''updated'' \<and> k \<le> length sheet
               \<and> sh' = sheet[k - 1 := rowData @ drop (length rowData) (sheet ! (k - 1))])
      \<and> (list_all (\<lambda>r. length r = length getHeaders) (getOrCreateSheet ss)
           \<longrightarrow> list_all (\<lambda>r. length r = length getHeaders) sh')"
proof -
  define sheet where "sheet = getOrCreateSheet ss"
  define k where "k = findStudentRow sheet (get_prop data ''student'') (get_prop data ''course'')"
  from assms obtain rowData where rd: "buildRowData clock data = Inr rowData"
    by (auto simp: saveGradeEntry_def Let_def split: sum.splits)
  have len: "length rowData = 16" using rd by (rule buildRowData_length)
  have kb: "0 < k \<Longrightarrow> k \<le> length sheet \<and> k - 1 < length sheet"
    using findStudentRow_bounds[OF k_def[symmetric]] by auto
  have upd: "if k = 0 then action res = ''created'' \<and> sh' = sheet @ [rowData]
            else action res = ''updated'' \<and> k \<le> length sheet
               \<and> sh' = sheet[k - 1 := rowData @ drop (length rowData) (sheet ! (k - 1))]"
    using assms rd kb
    by (auto simp: saveGradeEntry_def Let_def sheet_def[symmetric] k_def[symmetric]
        setValues_def appendRow_def)
  have al: "list_all (\<lambda>r. length r = 16) sh'" if a: "list_all (\<lambda>r. length r = 16) sheet"
  proof (cases "k = 0")
    case True
    with upd a len show ?thesis by simp
  next
    case False
    with kb have lt: "k - 1 < length sheet" by simp
    with a have "length (sheet ! (k - 1)) = 16" by (simp add: list_all_length)
    with len have "length (rowData @ drop (length rowData) (sheet ! (k - 1))) = 16" by simp
    with a upd False show ?thesis
      by (auto simp: list_all_length nth_list_update)
  qed
  show ?thesis
    using rd len upd al
    by (auto simp: length_getHeaders length_LEARNING_SKILLS Let_def sheet_def k_def
        simp del: One_nat_def)
qed

lemma buildRowData_testData:
  "buildRowData (t1, t2) (testData t0) = Inr (testRow (if t0 = [] then t1 else t0) t2)"
  by (simp add: buildRowData_def testData_def testRow_def pushSkills_Obj LEARNING_SKILLS_def
      get_prop_def js_or_def)

lemma findStudentRow_header_only: "findStudentRow [h] s c = 0"
  by (simp add: findStudentRow_def)

lemma saveGradeEntry_testData_fresh:
  "saveGradeEntry (t1, t2) None (testData ''2024-01-01T00:00:00.000Z'') =
     ([map JStr getHeaders, testRow ''2024-01-01T00:00:00.000Z'' t2],
      Inr \<lparr>success = True, action = ''created'',
           student = JStr ''Test Student'', course = JStr ''Math 7A''\<rparr>)"
  by (simp add: saveGradeEntry_def getOrCreateSheet_eq findStudentRow_header_only
      buildRowData_testData appendRow_def)
    (simp add: testData_def get_prop_def)

theorem saveGradeEntry_row_width_witness:
  "list_all (\<lambda>r. length r = length getHeaders) (getOrCreateSheet None)
   \<and> fst (saveGradeEntry (''2024-01-01T00:00:05.000Z'', ''2024-01-01T00:00:05.001Z'') None
            (testData ''2024-01-01T00:00:00.000Z''))
       = [map JStr getHeaders,
          testRow ''2024-01-01T00:00:00.000Z'' ''2024-01-01T00:00:05.001Z'']
   \<and> length (testRow ''2024-01-01T00:00:00.000Z'' ''2024-01-01T00:00:05.001Z'') = length getHeaders
   \<and> list_all (\<lambda>r. length r = length getHeaders)
        (fst (saveGradeEntry (''2024-01-01T00:00:05.000Z'', ''2024-01-01T00:00:05.001Z'') None
            (testData ''2024-01-01T00:00:00.000Z'')))"
  using saveGradeEntry_row_width[OF saveGradeEntry_testData_fresh,
      of "''2024-01-01T00:00:05.000Z''" "''2024-01-01T00:00:05.001Z''"]
  by (simp add: saveGradeEntry_testData_fresh getOrCreateSheet_eq buildRowData_testData
      findStudentRow_header_only)

subsection \<open>Validation of the comment\<close>

lemma js_length_truthy:
  "truthy c \<Longrightarrow> js_length c = Inr (case c of JStr s \<Rightarrow> Some (int (length s)) | _ \<Rightarrow> None)"
  by (cases c) auto

lemma checkSkills_prefix:
  "checkSkills sk ks errors = Inr errs \<Longrightarrow>
     \<exists>extra. errs = errors @ extra \<and> set extra \<subseteq> (\<lambda>k. k @ '' rating is required'') ` set ks"
proof (induction ks arbitrary: errors)
  case Nil
  then show ?case by simp
next
  case (Cons k ks)
  from Cons.prems obtain v where v: "index_val sk k = Inr v"
    and rest: "checkSkills sk ks (if \<not> truthy v then errors @ [k @ '' rating is required''] else errors) = Inr errs"
    by (auto split: sum.splits)
  from Cons.IH[OF rest] show ?case by (auto split: if_splits)
qed

lemma checkSkills_Obj_total: "\<exists>errs. checkSkills (Obj kvs) ks errors = Inr errs"
  by (induction ks arbitrary: errors) auto

lemma skill_message_not_comment:
  "k \<in> set LEARNING_SKILLS \<Longrightarrow> commentErrors [k @ '' rating is required''] = []"
  by (auto simp: LEARNING_SKILLS_def commentErrors_def)

lemma commentErrors_append: "commentErrors (xs @ ys) = commentErrors xs @ commentErrors ys"
  by (simp add: commentErrors_def)

lemma commentErrors_skill_messages:
  "set extra \<subseteq> (\<lambda>k. k @ '' rating is required'') ` set LEARNING_SKILLS \<Longrightarrow> commentErrors extra = []"
proof (induction extra)
  case Nil
  then show ?case by (simp add: commentErrors_def)
next
  case (Cons m extra)
  then obtain k where "k \<in> set LEARNING_SKILLS" "m = k @ '' rating is required''" by auto
  then have "commentErrors [m] = []" by (simp add: skill_message_not_comment)
  moreover from Cons have "commentErrors extra = []" by simp
  ultimately show ?case using commentErrors_append[of "[m]" extra] by simp
qed

lemma validateData_split:
  "\<exists>pre. commentErrors pre = [] \<and> validateData data = checkComment (get_prop data ''comment'') pre"
proof (cases "skills data")
  case (Sc v)
  define errors1 where "errors1 =
     (if \<not> truthy (get_prop data ''teacher'') then [''Teacher email is required''] else [])
     @ (if \<not> truthy (get_prop data ''student'') then [''Student name is required''] else [])
     @ (if \<not> truthy (get_prop data ''grade'') then [''Grade is required''] else [])
     @ [''Learning skills are required'']"
  have e1: "commentErrors errors1 = []" by (simp add: errors1_def commentErrors_def)
  from Sc have "\<not> truthy_val (skills data) \<or> typeof (skills data) \<noteq> ''object''"
    by (cases v) auto
  then have "validateData data = checkComment (get_prop data ''comment'') errors1"
    by (simp add: validateData_def errors1_def)
  with e1 show ?thesis by blast
next
  case (Obj kvs)
  define errors0 where "errors0 =
     (if \<not> truthy (get_prop data ''teacher'') then [''Teacher email is required''] else [])
     @ (if \<not> truthy (get_prop data ''student'') then [''Student name is required''] else [])
     @ (if \<not> truthy (get_prop data ''grade'') then [''Grade is required''] else [])"
  have e0: "commentErrors errors0 = []" by (simp add: errors0_def commentErrors_def)
  obtain errs where errs: "checkSkills (Obj kvs) LEARNING_SKILLS errors0 = Inr errs"
    using checkSkills_Obj_total by blast
  from checkSkills_prefix[OF errs] obtain extra where
    extra: "errs = errors0 @ extra" "set extra \<subseteq> (\<lambda>k. k @ '' rating is required'') ` set LEARNING_SKILLS"
    by blast
  have "commentErrors errs = []"
    using extra e0 commentErrors_skill_messages by (simp add: commentErrors_append)
  moreover have "validateData data = checkComment (get_prop data ''comment'') errs"
    using Obj errs by (auto simp: validateData_def errors0_def split: if_splits)
  ultimately show ?thesis by blast
qed

lemma checkComment_eq:
  "checkComment c pre =
     Inr (pre @ (if \<not> truthy c then [''Comment is required'']
                 else case c of
                        JStr s \<Rightarrow> if length s > 500 then [''Comment must be 500 characters or less''] else []
                      | _ \<Rightarrow> []))"
  by (cases c) (auto simp: checkComment_def exceeds_def)

text \<open>
  Claim C8. \<^verbatim>\<open>validateData\<close> yields at most one message about the comment. A
  comment that is absent or empty yields the presence message and no length check; a
  comment of 500 characters, or fewer, yields none; a longer one, 501 characters say,
  yields the message about the length.
\<close>

theorem validateData_comment_boundary:
  "\<exists>errs. validateData data = Inr errs
     \<and> length (commentErrors errs) \<le> 1
     \<and> (\<not> truthy (get_prop data ''comment'') \<longrightarrow> commentErrors errs = [''Comment is required''])
     \<and> (\<forall>s. get_prop data ''comment'' = JStr s \<and> s \<noteq> [] \<and> length s \<le> 500
            \<longrightarrow> commentErrors errs = [])
     \<and> (\<forall>s. get_prop data ''comment'' = JStr s \<and> length s > 500
            \<longrightarrow> commentErrors errs = [''Comment must be 500 characters or less''])"
proof -
  obtain pre where pre: "commentErrors pre = []"
    and v: "validateData data = checkComment (get_prop data ''comment'') pre"
    using validateData_split by blast
  show ?thesis
    unfolding v checkComment_eq
    using pre
    by (cases "get_prop data ''comment''")
       (auto simp: commentErrors_append, auto simp: commentErrors_def)
qed

theorem validateData_comment_boundary_witness:
  "(\<exists>errs. validateData (payload500 500) = Inr errs \<and> commentErrors errs = [])
   \<and> (\<exists>errs. validateData (payload500 501) = Inr errs
         \<and> commentErrors errs = [''Comment must be 500 characters or less''])
   \<and> (\<exists>errs. validateData (payload500 0) = Inr errs
         \<and> commentErrors errs = [''Comment is required''])"
  using validateData_comment_boundary[of "payload500 500"]
    validateData_comment_boundary[of "payload500 501"]
    validateData_comment_boundary[of "payload500 0"]
  by (auto simp: payload500_def get_prop_def)

subsection \<open>Optional numbers, and the export\<close>

text \<open>
  Claim C5 (the part that fails). A mark, a count of classes missed or of times late
  that was recorded as the number 0 is written as the empty string, the cell of a value
  that was never recorded: the two payloads below give the same row.
\<close>

theorem zero_mark_reads_as_not_recorded:
  "buildRowData clock
     \<lparr>props = [(''teacher'', JStr ''t@school.edu''), (''student'', JStr ''A''),
               (''percentageMark'', JNum 0), (''classesMissed'', JNum 0),
               (''timesLate'', JNum 0), (''comment'', JStr ''ok'')],
      skills = Obj []\<rparr>
   = Inr ([JStr (fst clock), JStr ''t@school.edu'', JUndefined, JStr '''', JStr ''A'',
           JStr '''', JStr '''', JStr '''']
          @ replicate 6 (JStr '''') @ [JStr ''ok'', JStr (snd clock)])
   \<and> buildRowData clock
     \<lparr>props = [(''teacher'', JStr ''t@school.edu''), (''student'', JStr ''A''),
               (''comment'', JStr ''ok'')],
      skills = Obj []\<rparr>
   = Inr ([JStr (fst clock), JStr ''t@school.edu'', JUndefined, JStr '''', JStr ''A'',
           JStr '''', JStr '''', JStr '''']
          @ replicate 6 (JStr '''') @ [JStr ''ok'', JStr (snd clock)])"
  by (simp add: buildRowData_def get_prop_def js_or_def pushSkills_Obj LEARNING_SKILLS_def
      numeral_eq_Suc)

lemma doubleQuotes_concat:
  "doubleQuotes s = concat (map (\<lambda>c. if c = CHR 0x22 then [CHR 0x22, CHR 0x22] else [c]) s)"
  by (induction s) auto

lemma csvCell_quotedField: "csvCell cell = quotedField (js_String cell)"
  by (simp add: csvCell_def quotedField_def needsQuoting_def doubleQuotes_concat)

lemma joinComma_Cons: "joinComma (x # xs) = x @ concat (map (\<lambda>g. CHR '','' # g) xs)"
  by (induction xs arbitrary: x) auto

lemma joinComma_csvLine: "joinComma (map csvCell r) @ [CHR 0x0A] = csvLine r"
proof (cases r)
  case Nil
  then show ?thesis by (simp add: csvLine_def)
next
  case (Cons c cs)
  then show ?thesis
    by (simp add: csvLine_def joinComma_Cons csvCell_quotedField comp_def)
qed

lemma csvLoop_csvText: "csvLoop rows csv = csv @ csvText rows"
  by (induction rows arbitrary: csv) (simp_all add: csvText_def joinComma_csvLine)

lemma csvLine_ends: "csvLine r \<noteq> [] \<and> last (csvLine r) = CHR 0x0A"
  by (simp add: csvLine_def)

lemma csvText_ends: "rows \<noteq> [] \<Longrightarrow> csvText rows \<noteq> [] \<and> last (csvText rows) = CHR 0x0A"
proof (induction rows rule: rev_induct)
  case Nil
  then show ?case by simp
next
  case (snoc r rows)
  have "csvText (rows @ [r]) = csvText rows @ csvLine r" by (simp add: csvText_def)
  with csvLine_ends[of r] show ?case by simp
qed

text \<open>
  Claim C6. \<^verbatim>\<open>exportToCsv\<close> renders the rows of the sheet in order, each as its cells
  joined by commas and ended by a newline; a cell whose text holds a comma, a double
  quote or a newline is put between double quotes with its double quotes doubled, any
  other cell is its text as it is. The sheet has its header row at least, so the text
  ends with a newline. The comment \<^verbatim>\<open>Hello, "world"\<close> followed by a newline is one
  quoted field.
\<close>

theorem exportToCsv_format:
  "snd (exportToCsv ss) = csvText (getOrCreateSheet ss)
   \<and> fst (exportToCsv ss) = getOrCreateSheet ss
   \<and> snd (exportToCsv ss) \<noteq> []
   \<and> last (snd (exportToCsv ss)) = CHR 0x0A
   \<and> csvCell (JStr (''Hello, '' @ [CHR 0x22] @ ''world'' @ [CHR 0x22, CHR 0x0A]))
       = [CHR 0x22] @ ''Hello, '' @ [CHR 0x22, CHR 0x22] @ ''world''
           @ [CHR 0x22, CHR 0x22, CHR 0x0A] @ [CHR 0x22]"
  using csvText_ends[OF getOrCreateSheet_nonempty, of ss]
  by (simp add: exportToCsv_def Let_def csvLoop_csvText csvCell_def)

subsection \<open>Entries read back from the sheet\<close>

lemma headerKeys:
  "headerKey ''Timestamp'' = ''timestamp''"
  "headerKey ''Teacher Email'' = ''teacher_email''"
  "headerKey ''Teacher Name'' = ''teacher_name''"
  "headerKey ''Course'' = ''course''"
  "headerKey ''Student Name'' = ''student_name''"
  "headerKey ''Percentage Mark'' = ''percentage_mark''"
  "headerKey ''Classes Missed'' = ''classes_missed''"
  "headerKey ''Times Late'' = ''times_late''"
  "headerKey ''Comment'' = ''comment''"
  "headerKey ''Last Modified'' = ''last_modified''"
  by code_simp+

lemma rowToObject_getHeaders: "rowToObject (map JStr getHeaders) r = Inr (entryOfRow r)"
  by (simp add: rowToObject_def getHeaders_def LEARNING_SKILLS_def headerKeys
      set_prop_def setSkill_def empty_object_def entryOfRow_def)
    (simp add: eval_nat_numeral)

lemma mapRows_getHeaders: "mapRows (map JStr getHeaders) rs = Inr (map entryOfRow rs)"
  by (induction rs) (simp_all add: rowToObject_getHeaders)

lemma getAllEntries_getHeaders:
  "getAllEntries (Some (map JStr getHeaders # rs)) =
     (map JStr getHeaders # rs, Inr (map entryOfRow rs))"
  by (simp add: getAllEntries_def getOrCreateSheet_eq mapRows_getHeaders Let_def
      del: mapRows.simps)

lemma getAllEntries_None: "getAllEntries None = ([map JStr getHeaders], Inr [])"
  by (simp add: getAllEntries_def getOrCreateSheet_eq)

lemma get_prop_entryOfRow:
  "get_prop (entryOfRow r) ''student'' = JUndefined"
  "get_prop (entryOfRow r) ''student_name'' = cellAt r 4"
  "get_prop (entryOfRow r) ''teacher_email'' = cellAt r 1"
  "get_prop (entryOfRow r) ''teacher_name'' = cellAt r 2"
  "get_prop (entryOfRow r) ''course'' = cellAt r 3"
  "get_prop (entryOfRow r) ''comment'' = cellAt r 14"
  "get_prop (entryOfRow r) ''grade'' = JUndefined"
  by (simp_all add: get_prop_def entryOfRow_def)

text \<open>
  Claim C3 (where it fails). The sheet holds a row whose Student Name cell is
  \<^verbatim>\<open>Test Student\<close>; \<^verbatim>\<open>getAllEntries\<close> returns its entry, with that name under the key
  \<^verbatim>\<open>student_name\<close> and nothing under \<^verbatim>\<open>student\<close>; \<^verbatim>\<open>getEntriesByStudent\<close> for
  \<^verbatim>\<open>Test Student\<close> returns no entry, while \<^verbatim>\<open>getEntriesByTeacher\<close> for the teacher
  of the row returns it.
\<close>

theorem getEntriesByStudent_misses_row:
  "cellAt (testSheet ! 1) 4 = JStr ''Test Student''
   \<and> snd (getAllEntries (Some testSheet)) = Inr [entryOfRow (testSheet ! 1)]
   \<and> get_prop (entryOfRow (testSheet ! 1)) ''student_name'' = JStr ''Test Student''
   \<and> get_prop (entryOfRow (testSheet ! 1)) ''student'' = JUndefined
   \<and> snd (getEntriesByStudent (Some testSheet) (JStr ''Test Student'')) = Inr []
   \<and> snd (getEntriesByTeacher (Some testSheet) (JStr ''teacher1@school.edu''))
       = Inr [entryOfRow (testSheet ! 1)]"
  by (simp add: testSheet_def getEntriesByStudent_def getEntriesByTeacher_def
      getAllEntries_getHeaders get_prop_entryOfRow)
    (simp add: testRow_def cellAt_def)

lemma getEntriesByStudent_standard_headers:
  "snd (getEntriesByStudent (Some (map JStr getHeaders # rs)) (JStr s)) = Inr []"
  by (simp add: getEntriesByStudent_def getAllEntries_getHeaders get_prop_entryOfRow)

subsection \<open>An entry mapped to its row and back\<close>

lemma buildRowData_Obj:
  assumes "skills data = Obj sk"
  shows "buildRowData clock data =
     Inr [js_or (get_prop data ''timestamp'') (JStr (fst clock)),
          get_prop data ''teacher'',
          get_prop data ''teacherName'',
          js_or (get_prop data ''course'') (JStr ''''),
          get_prop data ''student'',
          js_or (get_prop data ''percentageMark'') (JStr ''''),
          js_or (get_prop data ''classesMissed'') (JStr ''''),
          js_or (get_prop data ''timesLate'') (JStr ''''),
          js_or (rating sk ''Responsibility'') (JStr ''''),
          js_or (rating sk ''Organization'') (JStr ''''),
          js_or (rating sk ''Independent Work'') (JStr ''''),
          js_or (rating sk ''Collaboration'') (JStr ''''),
          js_or (rating sk ''Initiative'') (JStr ''''),
          js_or (rating sk ''Self-Regulation'') (JStr ''''),
          get_prop data ''comment'',
          JStr (snd clock)]"
  using assms
  by (simp add: buildRowData_def pushSkills_Obj LEARNING_SKILLS_def rating_def)

lemma roundTrip_Obj:
  assumes "skills data = Obj sk"
  shows "roundTrip clock data =
     Inr \<lparr>props =
            [(''timestamp'', js_or (get_prop data ''timestamp'') (JStr (fst clock))),
             (''teacher_email'', get_prop data ''teacher''),
             (''teacher_name'', get_prop data ''teacherName''),
             (''course'', js_or (get_prop data ''course'') (JStr '''')),
             (''student_name'', get_prop data ''student''),
             (''percentage_mark'', js_or (get_prop data ''percentageMark'') (JStr '''')),
             (''classes_missed'', js_or (get_prop data ''classesMissed'') (JStr '''')),
             (''times_late'', js_or (get_prop data ''timesLate'') (JStr '''')),
             (''comment'', get_prop data ''comment''),
             (''last_modified'', JStr (snd clock))],
          skills =
            Obj (map (\<lambda>k. (k, js_or (rating sk k) (JStr ''''))) LEARNING_SKILLS)\<rparr>"
  by (simp add: roundTrip_def buildRowData_Obj[OF assms] rowToObject_getHeaders
      entryOfRow_def cellAt_def LEARNING_SKILLS_def)

text \<open>
  Claim C4 as stated fails: the entry of \<^verbatim>\<open>testSaveEntry\<close>, mapped to its row and back,
  has no field \<^verbatim>\<open>student\<close> although the entry has one.
\<close>

theorem roundTrip_loses_field_names:
  "(\<exists>entry. roundTrip (''2024-01-01T00:00:05.000Z'', ''2024-01-01T00:00:05.001Z'')
               (testData ''2024-01-01T00:00:00.000Z'') = Inr entry
            \<and> get_prop entry ''student'' = JUndefined
            \<and> get_prop entry ''student_name'' = JStr ''Test Student'')
   \<and> get_prop (testData ''2024-01-01T00:00:00.000Z'') ''student'' = JStr ''Test Student''"
  by (simp add: roundTrip_Obj[of _ "[(''Responsibility'', JStr ''Excellent''),
             (''Organization'', JStr ''Good''),
             (''Independent Work'', JStr ''Excellent''),
             (''Collaboration'', JStr ''Satisfactory''),
             (''Initiative'', JStr ''Good''),
             (''Self-Regulation'', JStr ''Excellent'')]"] testData_def get_prop_def)

text \<open>
  Claim C4, amended. For an entry that rates every learning skill, the row and back gives
  an entry keyed by the column headers in lower case with underscores: the values of
  \<^verbatim>\<open>teacher\<close>, \<^verbatim>\<open>teacherName\<close> and \<^verbatim>\<open>student\<close> are found under \<^verbatim>\<open>teacher_email\<close>,
  \<^verbatim>\<open>teacher_name\<close> and \<^verbatim>\<open>student_name\<close>, those of \<^verbatim>\<open>percentageMark\<close>,
  \<^verbatim>\<open>classesMissed\<close> and \<^verbatim>\<open>timesLate\<close> under \<^verbatim>\<open>percentage_mark\<close>, \<^verbatim>\<open>classes_missed\<close>
  and \<^verbatim>\<open>times_late\<close> (a truthy value as it is, an absent one as the empty string),
  \<^verbatim>\<open>course\<close> (a string, or the empty string when absent) and \<^verbatim>\<open>comment\<close> under
  their own names, and \<^verbatim>\<open>skills\<close> maps the six skill names to the ratings of the
  entry. \<^verbatim>\<open>timestamp\<close> is the one of the entry, or the clock's, and \<^verbatim>\<open>last_modified\<close>
  the clock's. The names \<^verbatim>\<open>teacher\<close>, \<^verbatim>\<open>teacherName\<close>, \<^verbatim>\<open>student\<close>,
  \<^verbatim>\<open>percentageMark\<close>, \<^verbatim>\<open>classesMissed\<close> and \<^verbatim>\<open>timesLate\<close> are no keys of the result.
\<close>

theorem roundTrip_renamed_fields:
  assumes "skills data = Obj sk"
    and "list_all (\<lambda>k. truthy (rating sk k)) LEARNING_SKILLS"
  shows "\<exists>entry. roundTrip clock data = Inr entry
     \<and> get_prop entry ''teacher_email'' = get_prop data ''teacher''
     \<and> get_prop entry ''teacher_name'' = get_prop data ''teacherName''
     \<and> get_prop entry ''student_name'' = get_prop data ''student''
     \<and> get_prop entry ''comment'' = get_prop data ''comment''
     \<and> (truthy (get_prop data ''course'') \<or> get_prop data ''course'' = JStr ''''
          \<longrightarrow> get_prop entry ''course'' = get_prop data ''course'')
     \<and> (get_prop data ''course'' = JUndefined \<longrightarrow> get_prop entry ''course'' = JStr '''')
     \<and> (truthy (get_prop data ''percentageMark'')
          \<longrightarrow> get_prop entry ''percentage_mark'' = get_prop data ''percentageMark'')
     \<and> (get_prop data ''percentageMark'' = JUndefined
          \<longrightarrow> get_prop entry ''percentage_mark'' = JStr '''')
     \<and> (truthy (get_prop data ''classesMissed'')
          \<longrightarrow> get_prop entry ''classes_missed'' = get_prop data ''classesMissed'')
     \<and> (get_prop data ''classesMissed'' = JUndefined
          \<longrightarrow> get_prop entry ''classes_missed'' = JStr '''')
     \<and> (truthy (get_prop data ''timesLate'')
          \<longrightarrow> get_prop entry ''times_late'' = get_prop data ''timesLate'')
     \<and> (get_prop data ''timesLate'' = JUndefined
          \<longrightarrow> get_prop entry ''times_late'' = JStr '''')
     \<and> skills entry = Obj (map (\<lambda>k. (k, rating sk k)) LEARNING_SKILLS)
     \<and> (truthy (get_prop data ''timestamp'')
          \<longrightarrow> get_prop entry ''timestamp'' = get_prop data ''timestamp'')
     \<and> (\<not> truthy (get_prop data ''timestamp'')
          \<longrightarrow> get_prop entry ''timestamp'' = JStr (fst clock))
     \<and> get_prop entry ''last_modified'' = JStr (snd clock)
     \<and> map fst (props entry) =
          [''timestamp'', ''teacher_email'', ''teacher_name'', ''course'', ''student_name'',
           ''percentage_mark'', ''classes_missed'', ''times_late'', ''comment'',
           ''last_modified'']"
proof -
  from assms(2) have "map (\<lambda>k. (k, js_or (rating sk k) (JStr ''''))) LEARNING_SKILLS
      = map (\<lambda>k. (k, rating sk k)) LEARNING_SKILLS"
    by (simp add: list_all_iff js_or_def)
  then show ?thesis
    by (simp add: roundTrip_Obj[OF assms(1)] get_prop_def js_or_def)
qed

theorem roundTrip_renamed_fields_witness:
  "skills (testData ''2024-01-01T00:00:00.000Z'') =
     Obj [(''Responsibility'', JStr ''Excellent''), (''Organization'', JStr ''Good''),
          (''Independent Work'', JStr ''Excellent''), (''Collaboration'', JStr ''Satisfactory''),
          (''Initiative'', JStr ''Good''), (''Self-Regulation'', JStr ''Excellent'')]
   \<and> list_all (\<lambda>k. truthy (rating [(''Responsibility'', JStr ''Excellent''), (''Organization'', JStr ''Good''),
          (''Independent Work'', JStr ''Excellent''), (''Collaboration'', JStr ''Satisfactory''),
          (''Initiative'', JStr ''Good''), (''Self-Regulation'', JStr ''Excellent'')] k)) LEARNING_SKILLS
   \<and> truthy (get_prop (testData ''2024-01-01T00:00:00.000Z'') ''percentageMark'')
   \<and> (\<exists>entry. roundTrip (''2024-01-01T00:00:05.000Z'', ''2024-01-01T00:00:05.001Z'')
               (testData ''2024-01-01T00:00:00.000Z'') = Inr entry
        \<and> get_prop entry ''teacher_email'' = JStr ''teacher1@school.edu''
        \<and> get_prop entry ''student_name'' = JStr ''Test Student''
        \<and> get_prop entry ''percentage_mark'' = JNum 85
        \<and> get_prop entry ''course'' = JStr ''Math 7A''
        \<and> get_prop entry ''timestamp'' = JStr ''2024-01-01T00:00:00.000Z''
        \<and> skills entry = skills (testData ''2024-01-01T00:00:00.000Z''))"
proof -
  have s: "skills (testData ''2024-01-01T00:00:00.000Z'') =
     Obj [(''Responsibility'', JStr ''Excellent''), (''Organization'', JStr ''Good''),
          (''Independent Work'', JStr ''Excellent''), (''Collaboration'', JStr ''Satisfactory''),
          (''Initiative'', JStr ''Good''), (''Self-Regulation'', JStr ''Excellent'')]"
    by (simp add: testData_def)
  have r: "list_all (\<lambda>k. truthy (rating [(''Responsibility'', JStr ''Excellent''), (''Organization'', JStr ''Good''),
          (''Independent Work'', JStr ''Excellent''), (''Collaboration'', JStr ''Satisfactory''),
          (''Initiative'', JStr ''Good''), (''Self-Regulation'', JStr ''Excellent'')] k)) LEARNING_SKILLS"
    by (simp add: LEARNING_SKILLS_def rating_def)
  have g: "get_prop (testData ''2024-01-01T00:00:00.000Z'') ''percentageMark'' = JNum 85"
    "get_prop (testData ''2024-01-01T00:00:00.000Z'') ''teacher'' = JStr ''teacher1@school.edu''"
    "get_prop (testData ''2024-01-01T00:00:00.000Z'') ''student'' = JStr ''Test Student''"
    "get_prop (testData ''2024-01-01T00:00:00.000Z'') ''course'' = JStr ''Math 7A''"
    "get_prop (testData ''2024-01-01T00:00:00.000Z'') ''timestamp'' = JStr ''2024-01-01T00:00:00.000Z''"
    by (simp_all add: testData_def get_prop_def)
  from roundTrip_renamed_fields[OF s r,
      of "(''2024-01-01T00:00:05.000Z'', ''2024-01-01T00:00:05.001Z'')"]
  obtain entry where e: "roundTrip (''2024-01-01T00:00:05.000Z'', ''2024-01-01T00:00:05.001Z'')
               (testData ''2024-01-01T00:00:00.000Z'') = Inr entry"
    "get_prop entry ''teacher_email'' = JStr ''teacher1@school.edu''"
    "get_prop entry ''student_name'' = JStr ''Test Student''"
    "get_prop entry ''percentage_mark'' = JNum 85"
    "get_prop entry ''course'' = JStr ''Math 7A''"
    "get_prop entry ''timestamp'' = JStr ''2024-01-01T00:00:00.000Z''"
    "skills entry = Obj (map (\<lambda>k. (k, rating [(''Responsibility'', JStr ''Excellent''), (''Organization'', JStr ''Good''),
          (''Independent Work'', JStr ''Excellent''), (''Collaboration'', JStr ''Satisfactory''),
          (''Initiative'', JStr ''Good''), (''Self-Regulation'', JStr ''Excellent'')] k)) LEARNING_SKILLS)"
    by (auto simp: g)
  from e(7) have "skills entry = skills (testData ''2024-01-01T00:00:00.000Z'')"
    by (simp add: s LEARNING_SKILLS_def rating_def)
  with e s r g show ?thesis by auto
qed

subsection \<open>The summary\<close>

lemma js_length_textComment:
  "textComment entry \<Longrightarrow>
     js_length (js_or (get_prop entry ''comment'') (JStr '''')) = Inr (Some (int (commentLength entry)))"
  by (cases "get_prop entry ''comment''") (auto simp: textComment_def commentLength_def js_or_def)

lemma summaryLoop_text:
  "list_all textComment es \<Longrightarrow>
     \<exists>summ'. summaryLoop es (summ, Finite t) =
                Inr (summ', Finite (t + int (sum_list (map commentLength es))))
            \<and> totalEntries summ' = totalEntries summ"
proof (induction es arbitrary: summ t)
  case Nil
  then show ?case by simp
next
  case (Cons e es)
  then have e: "textComment e" and es: "list_all textComment es" by simp_all
  define summ1 where "summ1 =
     summ\<lparr>byTeacher := countUp (byTeacher summ) (js_String (get_prop e ''teacher_name'')),
          byGrade := countUp (byGrade summ) (js_String (get_prop e ''grade''))\<rparr>"
  from Cons.IH[OF es, of summ1 "t + int (commentLength e)"] obtain summ' where
    "summaryLoop es (summ1, Finite (t + int (commentLength e))) =
       Inr (summ', Finite (t + int (commentLength e) + int (sum_list (map commentLength es))))"
    "totalEntries summ' = totalEntries summ1"
    by blast
  then show ?case
    by (simp add: js_length_textComment[OF e] summ1_def add.assoc)
qed

lemma round_quotient_nearest:
  fixes t :: int and n :: nat
  assumes "0 < n"
  shows "2 * \<bar>Math_round (rat_of_int t / rat_of_nat n) * int n - t\<bar> \<le> int n"
proof -
  define x where "x = rat_of_int t / rat_of_nat n"
  define a where "a = Math_round x"
  have a: "a = round x" by (simp add: a_def Math_round_def round_def)
  have "\<bar>rat_of_int a - x\<bar> \<le> 1 / 2" unfolding a by (rule of_int_round_abs_le)
  then have "\<bar>rat_of_int a - x\<bar> * rat_of_nat n \<le> 1 / 2 * rat_of_nat n"
    by (rule mult_right_mono) simp
  moreover have "\<bar>rat_of_int a - x\<bar> * rat_of_nat n = \<bar>rat_of_int a * rat_of_nat n - rat_of_int t\<bar>"
  proof -
    have "x * rat_of_nat n = rat_of_int t" using assms by (simp add: x_def)
    then have "rat_of_int a * rat_of_nat n - rat_of_int t = (rat_of_int a - x) * rat_of_nat n"
      by (simp add: algebra_simps)
    then show ?thesis by (simp add: abs_mult)
  qed
  ultimately have "2 * \<bar>rat_of_int a * rat_of_nat n - rat_of_int t\<bar> \<le> rat_of_nat n" by simp
  then have "rat_of_int (2 * \<bar>a * int n - t\<bar>) \<le> rat_of_int (int n)" by simp
  then have "2 * \<bar>a * int n - t\<bar> \<le> int n" by (simp only: of_int_le_iff)
  then show ?thesis by (simp add: a_def x_def)
qed

text \<open>
  Claim C7. For entries whose comments are strings (or absent, counting as length 0),
  \<^verbatim>\<open>generateSummaryReport\<close> returns, without a fault, a summary whose
  \<^verbatim>\<open>averageCommentLength\<close> is the sum of the comment lengths divided by the number of
  entries, rounded to the nearest integer (a tie upwards), and 0 when there is no
  entry. Comments of 10, 20 and 30 characters give 20.
\<close>

theorem generateSummaryReport_average:
  assumes "getAllEntries ss = (sh, Inr entries)"
    and "list_all textComment entries"
  shows "\<exists>summ. generateSummaryReport ss = (sh, Inr summ)
     \<and> totalEntries summ = length entries
     \<and> averageCommentLength summ =
         (if entries = [] then Finite 0
          else Finite (round (rat_of_nat (sum_list (map commentLength entries))
                              / rat_of_nat (length entries))))
     \<and> (\<exists>a. averageCommentLength summ = Finite a
            \<and> 2 * \<bar>a * int (length entries) - int (sum_list (map commentLength entries))\<bar>
                \<le> int (length entries))"
proof -
  define total where "total = sum_list (map commentLength entries)"
  define summ0 where "summ0 =
     \<lparr>totalEntries = length entries, byTeacher = [], byGrade = [],
      averageCommentLength = Finite 0\<rparr>"
  from summaryLoop_text[OF assms(2), of summ0 0] obtain summ' where
    loop: "summaryLoop entries (summ0, Finite 0) = Inr (summ', Finite (int total))"
    and tot: "totalEntries summ' = length entries"
    by (auto simp: total_def summ0_def)
  define avg where "avg =
     (if length entries > 0 then roundQuotient (Finite (int total)) (length entries)
      else Finite 0)"
  have s: "summarize entries = Inr (summ'\<lparr>averageCommentLength := avg\<rparr>)"
    using loop by (simp add: summarize_def summ0_def[symmetric] avg_def)
  have g: "generateSummaryReport ss = (sh, Inr (summ'\<lparr>averageCommentLength := avg\<rparr>))"
    using assms(1) s by (simp add: generateSummaryReport_def)
  have v: "avg = (if entries = [] then Finite 0
          else Finite (round (rat_of_nat total / rat_of_nat (length entries))))"
    by (simp add: avg_def Math_round_def round_def)
  have n: "\<exists>a. avg = Finite a \<and> 2 * \<bar>a * int (length entries) - int total\<bar> \<le> int (length entries)"
  proof (cases "entries = []")
    case True
    then show ?thesis by (simp add: avg_def total_def)
  next
    case False
    then have "0 < length entries" by simp
    from round_quotient_nearest[OF this, of "int total"] False show ?thesis
      by (simp add: avg_def)
  qed
  show ?thesis
    using g tot v n by (auto simp: total_def)
qed

lemma commentLength_commentRow: "commentLength (entryOfRow (commentRow n)) = n"
  by (simp add: commentLength_def get_prop_entryOfRow commentRow_def testRow_def cellAt_def)

lemma textComment_commentRow: "textComment (entryOfRow (commentRow n))"
  by (simp add: textComment_def get_prop_entryOfRow commentRow_def testRow_def cellAt_def)

theorem generateSummaryReport_average_witness:
  "getAllEntries (Some summarySheet) = (summarySheet, Inr (map entryOfRow (map commentRow [10, 20, 30])))
   \<and> list_all textComment (map entryOfRow (map commentRow [10, 20, 30]))
   \<and> map commentLength (map entryOfRow (map commentRow [10, 20, 30])) = [10, 20, 30]
   \<and> (\<exists>summ. generateSummaryReport (Some summarySheet) = (summarySheet, Inr summ)
          \<and> totalEntries summ = 3 \<and> averageCommentLength summ = Finite 20)
   \<and> getAllEntries None = ([map JStr getHeaders], Inr [])
   \<and> (\<exists>summ. generateSummaryReport None = ([map JStr getHeaders], Inr summ)
          \<and> totalEntries summ = 0 \<and> averageCommentLength summ = Finite 0)"
proof -
  have a: "getAllEntries (Some summarySheet) =
      (summarySheet, Inr (map entryOfRow (map commentRow [10, 20, 30])))"
    unfolding summarySheet_def by (rule getAllEntries_getHeaders)
  have t: "list_all textComment (map entryOfRow (map commentRow [10, 20, 30]))"
    by (simp add: textComment_commentRow)
  have l: "map commentLength (map entryOfRow (map commentRow [10, 20, 30])) = [10, 20, 30]"
    by (simp add: commentLength_commentRow)
  have e: "list_all textComment []" by simp
  from generateSummaryReport_average[OF a t] l
  have 1: "\<exists>summ. generateSummaryReport (Some summarySheet) = (summarySheet, Inr summ)
          \<and> totalEntries summ = 3 \<and> averageCommentLength summ = Finite 20"
    by (auto simp: commentLength_commentRow)
  from generateSummaryReport_average[OF getAllEntries_None e]
  have 2: "\<exists>summ. generateSummaryReport None = ([map JStr getHeaders], Inr summ)
          \<and> totalEntries summ = 0 \<and> averageCommentLength summ = Finite 0"
    by auto
  from a t l 1 2 getAllEntries_None show ?thesis by blast
qed

subsection \<open>Submissions without a course\<close>

lemma pushSkills_Sc:
  "v \<noteq> JUndefined \<Longrightarrow> v \<noteq> JNull \<Longrightarrow>
     pushSkills (Sc v) ks acc = Inr (acc @ replicate (length ks) (JStr ''''))"
proof (induction ks arbitrary: acc)
  case Nil
  then show ?case by simp
next
  case (Cons k ks)
  then have "index_val (Sc v) k = Inr JUndefined" by (cases v) auto
  with Cons show ?case by (simp add: js_or_def replicate_app_Cons_same)
qed

lemma pushSkills_unreadable:
  "sk = Sc JUndefined \<or> sk = Sc JNull \<Longrightarrow> pushSkills sk (k # ks) acc = Inl TypeError"
  by auto

lemma pushSkills_readable:
  assumes "sk \<noteq> Sc JUndefined" and "sk \<noteq> Sc JNull"
  shows "\<exists>cells. length cells = length ks \<and> pushSkills sk ks acc = Inr (acc @ cells)"
proof (cases sk)
  case (Sc v)
  with assms pushSkills_Sc[of v ks acc] show ?thesis by auto
next
  case (Obj kvs)
  then show ?thesis by (simp add: pushSkills_Obj)
qed

lemma buildRowData_readable:
  assumes "skills data \<noteq> Sc JUndefined" and "skills data \<noteq> Sc JNull"
  shows "\<exists>rowData. buildRowData clock data = Inr rowData
     \<and> cellAt rowData 3 = js_or (get_prop data ''course'') (JStr '''')
     \<and> cellAt rowData 4 = get_prop data ''student''"
proof -
  define acc where "acc =
       [js_or (get_prop data ''timestamp'') (JStr (fst clock)),
         get_prop data ''teacher'',
         get_prop data ''teacherName'',
         js_or (get_prop data ''course'') (JStr ''''),
         get_prop data ''student'',
         js_or (get_prop data ''percentageMark'') (JStr ''''),
         js_or (get_prop data ''classesMissed'') (JStr ''''),
         js_or (get_prop data ''timesLate'') (JStr '''')]"
  from pushSkills_readable[OF assms, of LEARNING_SKILLS acc] obtain cells where
    p: "pushSkills (skills data) LEARNING_SKILLS acc = Inr (acc @ cells)" by blast
  have b: "buildRowData clock data =
      Inr (acc @ cells @ [get_prop data ''comment''] @ [JStr (snd clock)])"
    using p by (simp add: buildRowData_def acc_def[symmetric])
  have "cellAt (acc @ cells @ [get_prop data ''comment''] @ [JStr (snd clock)]) 3
          = js_or (get_prop data ''course'') (JStr '''')"
    "cellAt (acc @ cells @ [get_prop data ''comment''] @ [JStr (snd clock)]) 4
          = get_prop data ''student''"
    by (simp_all add: cellAt_def acc_def nth_append)
  with b show ?thesis by simp
qed

lemma buildRowData_unreadable:
  "skills data = Sc JUndefined \<or> skills data = Sc JNull \<Longrightarrow>
     buildRowData clock data = Inl TypeError"
  by (auto simp: buildRowData_def LEARNING_SKILLS_def)

lemma scanRows_undefined_course:
  "list_all (\<lambda>r. cellAt r 3 \<noteq> JUndefined) rs \<Longrightarrow> scanRows rs i s JUndefined = 0"
  by (induction rs arbitrary: i) auto

lemma getOrCreateSheet_Some_nonempty: "sh \<noteq> [] \<Longrightarrow> getOrCreateSheet (Some sh) = sh"
  by (simp add: getOrCreateSheet_eq)

lemma saveGradeEntry_absent_course:
  assumes c: "get_prop data ''course'' = JUndefined"
    and s: "skills data \<noteq> Sc JUndefined" "skills data \<noteq> Sc JNull"
    and wf: "list_all (\<lambda>r. cellAt r 3 \<noteq> JUndefined) (drop 1 (getOrCreateSheet ss))"
  shows "\<exists>rowData. buildRowData clock data = Inr rowData
     \<and> cellAt rowData 3 = JStr '''' \<and> cellAt rowData 4 = get_prop data ''student''
     \<and> findStudentRow (getOrCreateSheet ss) (get_prop data ''student'') (get_prop data ''course'') = 0
     \<and> saveGradeEntry clock ss data =
         (getOrCreateSheet ss @ [rowData],
          Inr \<lparr>success = True, action = ''created'',
               student = get_prop data ''student'', course = get_prop data ''course''\<rparr>)"
proof -
  from buildRowData_readable[OF s, of clock] obtain rowData where
    b: "buildRowData clock data = Inr rowData"
    and c3: "cellAt rowData 3 = js_or (get_prop data ''course'') (JStr '''')"
    and c4: "cellAt rowData 4 = get_prop data ''student''"
    by blast
  have f: "findStudentRow (getOrCreateSheet ss) (get_prop data ''student'') (get_prop data ''course'') = 0"
    using scanRows_undefined_course[OF wf] by (simp add: findStudentRow_def c)
  from b f have "saveGradeEntry clock ss data =
         (getOrCreateSheet ss @ [rowData],
          Inr \<lparr>success = True, action = ''created'',
               student = get_prop data ''student'', course = get_prop data ''course''\<rparr>)"
    by (simp add: saveGradeEntry_def appendRow_def)
  with b c3 c4 f c show ?thesis by (simp add: js_or_def)
qed

text \<open>
  Claim C9. For a submission without a course, \<^verbatim>\<open>saveGradeEntry\<close> writes the empty
  string into the Course cell and looks for \<^verbatim>\<open>undefined\<close>, which no stored Course cell
  equals: the submission is reported as created and its row is appended. Two such
  submissions for one student, one after the other, leave two rows for that student.
  (The submissions carry a skills value whose ratings can be read; the Course cells of
  the sheet are values, as a sheet returns them.)
\<close>

theorem absent_course_always_appends:
  assumes "get_prop data ''course'' = JUndefined"
    and "get_prop data2 ''course'' = JUndefined"
    and "skills data \<noteq> Sc JUndefined" and "skills data \<noteq> Sc JNull"
    and "skills data2 \<noteq> Sc JUndefined" and "skills data2 \<noteq> Sc JNull"
    and "get_prop data2 ''student'' = get_prop data ''student''"
    and "list_all (\<lambda>r. cellAt r 3 \<noteq> JUndefined) (drop 1 (getOrCreateSheet ss))"
  shows "\<exists>row1 row2 res1 res2.
       findStudentRow (getOrCreateSheet ss) (get_prop data ''student'') (get_prop data ''course'') = 0
     \<and> saveGradeEntry clock ss data = (getOrCreateSheet ss @ [row1], Inr res1)
     \<and> action res1 = ''created''
     \<and> saveGradeEntry clock2 (Some (getOrCreateSheet ss @ [row1])) data2 =
         (getOrCreateSheet ss @ [row1, row2], Inr res2)
     \<and> action res2 = ''created''
     \<and> cellAt row1 3 = JStr '''' \<and> cellAt row1 4 = get_prop data ''student''
     \<and> cellAt row2 3 = JStr '''' \<and> cellAt row2 4 = get_prop data ''student''"
proof -
  from saveGradeEntry_absent_course[OF assms(1,3,4,8), of clock] obtain row1 where
    r1: "cellAt row1 3 = JStr ''''" "cellAt row1 4 = get_prop data ''student''"
      "findStudentRow (getOrCreateSheet ss) (get_prop data ''student'') (get_prop data ''course'') = 0"
      "saveGradeEntry clock ss data =
         (getOrCreateSheet ss @ [row1],
          Inr \<lparr>success = True, action = ''created'',
               student = get_prop data ''student'', course = get_prop data ''course''\<rparr>)"
    by blast
  define ss1 where "ss1 = Some (getOrCreateSheet ss @ [row1])"
  have g: "getOrCreateSheet ss1 = getOrCreateSheet ss @ [row1]"
    by (simp add: ss1_def getOrCreateSheet_Some_nonempty)
  have "drop 1 (getOrCreateSheet ss @ [row1]) = drop 1 (getOrCreateSheet ss) @ [row1]"
    using getOrCreateSheet_nonempty[of ss] by (cases "getOrCreateSheet ss") auto
  with assms(8) r1(1) have wf1: "list_all (\<lambda>r. cellAt r 3 \<noteq> JUndefined) (drop 1 (getOrCreateSheet ss1))"
    by (simp add: g)
  from saveGradeEntry_absent_course[OF assms(2,5,6) wf1, of clock2] obtain row2 where
    r2: "cellAt row2 3 = JStr ''''" "cellAt row2 4 = get_prop data2 ''student''"
      "saveGradeEntry clock2 ss1 data2 =
         (getOrCreateSheet ss1 @ [row2],
          Inr \<lparr>success = True, action = ''created'',
               student = get_prop data2 ''student'', course = get_prop data2 ''course''\<rparr>)"
    by blast
  from r1 r2 assms(7) show ?thesis
    by (simp add: g ss1_def[symmetric])
qed

lemma buildRowData_noCourse: "buildRowData clock (noCourse mark) = Inr (noCourseRow mark clock)"
  by (simp add: buildRowData_def noCourse_def noCourseRow_def pushSkills_Obj LEARNING_SKILLS_def
      get_prop_def js_or_def)

theorem absent_course_always_appends_witness:
  "get_prop (noCourse 70) ''course'' = JUndefined
   \<and> get_prop (noCourse 90) ''course'' = JUndefined
   \<and> skills (noCourse 70) \<noteq> Sc JUndefined \<and> skills (noCourse 70) \<noteq> Sc JNull
   \<and> skills (noCourse 90) \<noteq> Sc JUndefined \<and> skills (noCourse 90) \<noteq> Sc JNull
   \<and> get_prop (noCourse 90) ''student'' = get_prop (noCourse 70) ''student''
   \<and> list_all (\<lambda>r. cellAt r 3 \<noteq> JUndefined) (drop 1 (getOrCreateSheet (Some testSheet)))
   \<and> (\<exists>row1 row2.
         fst (saveGradeEntry (''t1'', ''t2'') (Some testSheet) (noCourse 70)) = testSheet @ [row1]
       \<and> fst (saveGradeEntry (''t3'', ''t4'') (Some (testSheet @ [row1])) (noCourse 90))
           = testSheet @ [row1, row2]
       \<and> cellAt row1 4 = JStr ''A'' \<and> cellAt row2 4 = JStr ''A''
       \<and> cellAt row1 3 = JStr '''' \<and> cellAt row2 3 = JStr '''')"
proof -
  have h: "get_prop (noCourse 70) ''course'' = JUndefined"
    "get_prop (noCourse 90) ''course'' = JUndefined"
    "skills (noCourse 70) \<noteq> Sc JUndefined" "skills (noCourse 70) \<noteq> Sc JNull"
    "skills (noCourse 90) \<noteq> Sc JUndefined" "skills (noCourse 90) \<noteq> Sc JNull"
    "get_prop (noCourse 90) ''student'' = get_prop (noCourse 70) ''student''"
    by (simp_all add: noCourse_def get_prop_def)
  have g: "getOrCreateSheet (Some testSheet) = testSheet"
    by (simp add: getOrCreateSheet_eq testSheet_def)
  have wf: "list_all (\<lambda>r. cellAt r 3 \<noteq> JUndefined) (drop 1 (getOrCreateSheet (Some testSheet)))"
    by (simp add: g) (simp add: testSheet_def testRow_def cellAt_def)
  have s: "get_prop (noCourse 70) ''student'' = JStr ''A''"
    by (simp add: noCourse_def get_prop_def)
  from absent_course_always_appends[OF h wf, of "(''t1'', ''t2'')" "(''t3'', ''t4'')"]
  have "\<exists>row1 row2.
         fst (saveGradeEntry (''t1'', ''t2'') (Some testSheet) (noCourse 70)) = testSheet @ [row1]
       \<and> fst (saveGradeEntry (''t3'', ''t4'') (Some (testSheet @ [row1])) (noCourse 90))
           = testSheet @ [row1, row2]
       \<and> cellAt row1 4 = JStr ''A'' \<and> cellAt row2 4 = JStr ''A''
       \<and> cellAt row1 3 = JStr '''' \<and> cellAt row2 3 = JStr ''''"
    unfolding g s by fastforce
  with h wf show ?thesis by blast
qed

subsection \<open>Duplicate rows\<close>

lemma findStudentRow_noCourse:
  "findStudentRow [h, noCourseRow mark clock] (JStr ''A'') JUndefined = 0"
  by (simp add: findStudentRow_def noCourseRow_def cellAt_def)

lemma get_prop_noCourse:
  "get_prop (noCourse mark) ''student'' = JStr ''A''"
  "get_prop (noCourse mark) ''course'' = JUndefined"
  by (simp_all add: noCourse_def get_prop_def)

text \<open>
  Claim C1 (where it fails). Two submissions for the student \<^verbatim>\<open>A\<close>, neither with a
  course, are saved to a fresh sheet one after the other: both are reported as created,
  and the sheet ends with two data rows whose Student Name cell is \<^verbatim>\<open>A\<close> and whose
  Course cell is the empty string.
\<close>

theorem duplicate_rows_without_course:
  "saveGradeEntry clock1 None (noCourse 70) =
     ([map JStr getHeaders, noCourseRow 70 clock1],
      Inr \<lparr>success = True, action = ''created'', student = JStr ''A'', course = JUndefined\<rparr>)
   \<and> saveGradeEntry clock2 (Some [map JStr getHeaders, noCourseRow 70 clock1]) (noCourse 90) =
     ([map JStr getHeaders, noCourseRow 70 clock1, noCourseRow 90 clock2],
      Inr \<lparr>success = True, action = ''created'', student = JStr ''A'', course = JUndefined\<rparr>)
   \<and> filter (\<lambda>r. cellAt r 4 = JStr ''A'' \<and> cellAt r 3 = JStr '''')
        [noCourseRow 70 clock1, noCourseRow 90 clock2]
       = [noCourseRow 70 clock1, noCourseRow 90 clock2]"
proof -
  have 1: "saveGradeEntry clock1 None (noCourse 70) =
     ([map JStr getHeaders, noCourseRow 70 clock1],
      Inr \<lparr>success = True, action = ''created'', student = JStr ''A'', course = JUndefined\<rparr>)"
    by (simp add: saveGradeEntry_def getOrCreateSheet_eq findStudentRow_header_only
        buildRowData_noCourse appendRow_def get_prop_noCourse)
  have 2: "saveGradeEntry clock2 (Some [map JStr getHeaders, noCourseRow 70 clock1]) (noCourse 90) =
     ([map JStr getHeaders, noCourseRow 70 clock1, noCourseRow 90 clock2],
      Inr \<lparr>success = True, action = ''created'', student = JStr ''A'', course = JUndefined\<rparr>)"
    by (simp add: saveGradeEntry_def getOrCreateSheet_eq findStudentRow_noCourse
        buildRowData_noCourse appendRow_def get_prop_noCourse)
  have 3: "filter (\<lambda>r. cellAt r 4 = JStr ''A'' \<and> cellAt r 3 = JStr '''')
        [noCourseRow 70 clock1, noCourseRow 90 clock2]
       = [noCourseRow 70 clock1, noCourseRow 90 clock2]"
    by (simp add: noCourseRow_def cellAt_def)
  from 1 2 3 show ?thesis by blast
qed

subsection \<open>Submissions whose student and course are strings\<close>

lemma scanRows_zero:
  "scanRows rs i (JStr s) (JStr c) = 0 \<Longrightarrow> filter (keyIs s c) rs = []"
  by (induction rs arbitrary: i) (auto simp: keyIs_def split: if_splits)

lemma filter_update_single:
  assumes "j < length rs" and "P (rs ! j)" and "length (filter P rs) \<le> 1" and "P x"
  shows "filter P (rs[j := x]) = [x]"
proof -
  have rs: "rs = take j rs @ rs ! j # drop (Suc j) rs"
    using assms(1) by (simp add: id_take_nth_drop)
  have "filter P rs = filter P (take j rs) @ rs ! j # filter P (drop (Suc j) rs)"
    using assms(2) by (subst rs) simp
  with assms(3) have e: "filter P (take j rs) = []" "filter P (drop (Suc j) rs) = []"
    by auto
  have "rs[j := x] = take j rs @ x # drop (Suc j) rs"
    using assms(1) by (simp add: upd_conv_take_nth_drop)
  with e assms(4) show ?thesis by simp
qed

text \<open>
  Where the student and the course of a submission are strings, the lookup and the row
  written agree: on a sheet with at most one row for the pair, whose rows are no wider
  than the header, the save leaves exactly one row for the pair, the row built from the
  submission; a row is added only if there was none.
\<close>

lemma saveGradeEntry_upsert:
  assumes sub: "submissionFor s c data"
    and one: "length (filter (keyIs s c) (drop 1 (getOrCreateSheet ss))) \<le> 1"
    and narrow: "list_all (\<lambda>r. length r \<le> 16) (drop 1 (getOrCreateSheet ss))"
  shows "\<exists>rowData. buildRowData clock data = Inr rowData
     \<and> fst (saveGradeEntry clock ss data) \<noteq> []
     \<and> filter (keyIs s c) (drop 1 (fst (saveGradeEntry clock ss data))) = [rowData]
     \<and> list_all (\<lambda>r. length r \<le> 16) (drop 1 (fst (saveGradeEntry clock ss data)))
     \<and> length (drop 1 (fst (saveGradeEntry clock ss data)))
         = (if filter (keyIs s c) (drop 1 (getOrCreateSheet ss)) = []
            then length (drop 1 (getOrCreateSheet ss)) + 1
            else length (drop 1 (getOrCreateSheet ss)))"
proof -
  from sub have st: "get_prop data ''student'' = JStr s" and co: "get_prop data ''course'' = JStr c"
    and r1: "skills data \<noteq> Sc JUndefined" and r2: "skills data \<noteq> Sc JNull"
    by (simp_all add: submissionFor_def)
  from buildRowData_readable[OF r1 r2, of clock] obtain rowData where
    b: "buildRowData clock data = Inr rowData"
    and c3: "cellAt rowData 3 = js_or (get_prop data ''course'') (JStr '''')"
    and c4: "cellAt rowData 4 = get_prop data ''student''"
    by blast
  have len: "length rowData = 16" using b by (rule buildRowData_length)
  have key: "keyIs s c rowData" using c3 c4 st co by (auto simp: keyIs_def js_or_def)
  define sheet where "sheet = getOrCreateSheet ss"
  define rs where "rs = drop 1 sheet"
  define k where "k = findStudentRow sheet (JStr s) (JStr c)"
  have ne: "sheet \<noteq> []" by (simp add: sheet_def getOrCreateSheet_nonempty)
  then have sh: "sheet = hd sheet # rs" by (cases sheet) (simp_all add: rs_def)
  have one': "length (filter (keyIs s c) rs) \<le> 1" using one unfolding rs_def sheet_def .
  have narrow': "list_all (\<lambda>r. length r \<le> 16) rs" using narrow unfolding rs_def sheet_def .
  show ?thesis
  proof (cases "k = 0")
    case True
    then have none: "filter (keyIs s c) rs = []"
      using scanRows_zero[of rs 1 s c] by (simp add: k_def findStudentRow_def rs_def)
    have s: "fst (saveGradeEntry clock ss data) = sheet @ [rowData]"
      using True b by (simp add: saveGradeEntry_def sheet_def k_def st co appendRow_def)
    have d: "drop 1 (sheet @ [rowData]) = rs @ [rowData]"
      using ne by (cases sheet) (simp_all add: rs_def)
    have x: "drop 1 (fst (saveGradeEntry clock ss data)) = rs @ [rowData]"
      unfolding s by (rule d)
    have c1: "fst (saveGradeEntry clock ss data) \<noteq> []" using s by simp
    have c2: "filter (keyIs s c) (drop 1 (fst (saveGradeEntry clock ss data))) = [rowData]"
      unfolding x using none key by simp
    have c3: "list_all (\<lambda>r. length r \<le> 16) (drop 1 (fst (saveGradeEntry clock ss data)))"
      unfolding x using narrow' len by simp
    have c4: "length (drop 1 (fst (saveGradeEntry clock ss data)))
         = (if filter (keyIs s c) rs = [] then length rs + 1 else length rs)"
      unfolding x using none by simp
    from b c1 c2 c3 c4 show ?thesis unfolding rs_def sheet_def by blast
  next
    case False
    then have pos: "0 < k" by simp
    from findStudentRow_bounds[OF k_def[symmetric] pos]
    have kb: "2 \<le> k" "k \<le> length sheet"
      and m: "cellAt (sheet ! (k - 1)) 4 = JStr s" "cellAt (sheet ! (k - 1)) 3 = JStr c"
      by auto
    from kb have lt: "k - 1 < length sheet" by arith
    from kb have j: "k - 2 < length rs" by (simp add: rs_def)
    from kb have idx: "Suc (k - 2) = k - 1" by arith
    from kb have idx1: "1 + (k - 2) = k - 1" by arith
    have old: "rs ! (k - 2) = sheet ! (k - 1)"
      unfolding rs_def using idx1 lt by (simp del: One_nat_def)
    from narrow' j have "length (rs ! (k - 2)) \<le> 16"
      by (simp add: list_all_length)
    with len old have new: "rowData @ drop (length rowData) (sheet ! (k - 1)) = rowData" by simp
    have s: "fst (saveGradeEntry clock ss data) = sheet[k - 1 := rowData]"
      using b pos lt new
      by (simp add: saveGradeEntry_def sheet_def[symmetric] k_def[symmetric] st co setValues_def
          del: One_nat_def)
    have d: "drop 1 (sheet[k - 1 := rowData]) = rs[k - 2 := rowData]"
    proof -
      from kb have "1 \<le> k - 1" by arith
      then have "drop 1 (sheet[k - 1 := rowData]) = (drop 1 sheet)[k - 1 - 1 := rowData]"
        by (rule drop_update_swap)
      moreover have "k - 1 - 1 = k - 2" by arith
      ultimately show ?thesis by (simp only: rs_def)
    qed
    have mk: "keyIs s c (rs ! (k - 2))" using m old by (simp add: keyIs_def)
    have f: "filter (keyIs s c) (rs[k - 2 := rowData]) = [rowData]"
      using filter_update_single[OF j mk one' key] .
    have some: "filter (keyIs s c) rs \<noteq> []"
      using nth_mem[OF j] mk by (auto simp: filter_empty_conv)
    have n: "list_all (\<lambda>r. length r \<le> 16) (rs[k - 2 := rowData])"
      using narrow' len set_update_subset_insert[of rs "k - 2" rowData]
      by (auto simp: list_all_iff)
    have x: "drop 1 (fst (saveGradeEntry clock ss data)) = rs[k - 2 := rowData]"
      unfolding s by (rule d)
    have c1: "fst (saveGradeEntry clock ss data) \<noteq> []" using s ne by simp
    have c2: "filter (keyIs s c) (drop 1 (fst (saveGradeEntry clock ss data))) = [rowData]"
      unfolding x by (rule f)
    have c3: "list_all (\<lambda>r. length r \<le> 16) (drop 1 (fst (saveGradeEntry clock ss data)))"
      unfolding x by (rule n)
    have c4: "length (drop 1 (fst (saveGradeEntry clock ss data)))
         = (if filter (keyIs s c) rs = [] then length rs + 1 else length rs)"
      unfolding x using some by simp
    from b c1 c2 c3 c4 show ?thesis unfolding rs_def sheet_def by blast
  qed
qed

text \<open>So any number of such submissions for one pair, saved one after the other, leave
  one row for the pair: the row of the last.\<close>

lemma saveAll_upsert:
  assumes "xs \<noteq> []"
    and "list_all (\<lambda>x. submissionFor s c (snd x)) xs"
    and "length (filter (keyIs s c) (drop 1 (getOrCreateSheet ss))) \<le> 1"
    and "list_all (\<lambda>r. length r \<le> 16) (drop 1 (getOrCreateSheet ss))"
  shows "\<exists>rowData. buildRowData (fst (last xs)) (snd (last xs)) = Inr rowData
     \<and> filter (keyIs s c) (drop 1 (getOrCreateSheet (saveAll ss xs))) = [rowData]"
  using assms
proof (induction xs arbitrary: ss)
  case Nil
  then show ?case by simp
next
  case (Cons x xs)
  from Cons.prems(2) have x: "submissionFor s c (snd x)"
    and rest: "list_all (\<lambda>x. submissionFor s c (snd x)) xs" by simp_all
  define sh' where "sh' = fst (saveGradeEntry (fst x) ss (snd x))"
  from saveGradeEntry_upsert[OF x Cons.prems(3,4), of "fst x"] obtain rowData where
    b: "buildRowData (fst x) (snd x) = Inr rowData"
    and ne: "sh' \<noteq> []"
    and f: "filter (keyIs s c) (drop 1 sh') = [rowData]"
    and n: "list_all (\<lambda>r. length r \<le> 16) (drop 1 sh')"
    unfolding sh'_def by blast
  have g: "getOrCreateSheet (Some sh') = sh'" using ne by (rule getOrCreateSheet_Some_nonempty)
  show ?case
  proof (cases "xs = []")
    case True
    with b f g show ?thesis by (simp add: sh'_def[symmetric])
  next
    case False
    from f have one: "length (filter (keyIs s c) (drop 1 (getOrCreateSheet (Some sh')))) \<le> 1"
      by (simp add: g)
    from n have nar: "list_all (\<lambda>r. length r \<le> 16) (drop 1 (getOrCreateSheet (Some sh')))"
      by (simp add: g)
    from Cons.IH[OF False rest one nar] False show ?thesis
      by (simp add: sh'_def[symmetric])
  qed
qed

subsection \<open>The write path and the validator\<close>

lemma doPost_eq:
  "doPost clock ss data =
     (fst (saveGradeEntry clock ss data),
      case snd (saveGradeEntry clock ss data) of Inl e \<Rightarrow> Failed e | Inr res \<Rightarrow> Saved res)"
  by (simp add: doPost_def split: prod.splits sum.splits)

lemma saveGradeEntry_unreadable:
  "skills data = Sc JUndefined \<or> skills data = Sc JNull \<Longrightarrow>
     saveGradeEntry clock ss data = (getOrCreateSheet ss, Inl TypeError)"
  by (simp add: saveGradeEntry_def buildRowData_unreadable)

text \<open>The one rejection of \<^verbatim>\<open>doPost\<close>: the fault of a payload whose skills are absent
  or null, caught before any row is written.\<close>

lemma doPost_unreadable:
  "skills data = Sc JUndefined \<or> skills data = Sc JNull \<Longrightarrow>
     doPost clock ss data = (getOrCreateSheet ss, Failed TypeError)"
  by (simp add: doPost_eq saveGradeEntry_unreadable)

lemma validateData_gradedEntry:
  "validateData (gradedEntry n) =
     Inr (if 500 < n then [''Comment must be 500 characters or less'']
          else if n = 0 then [''Comment is required''] else [])"
  by (simp add: validateData_def gradedEntry_def get_prop_def LEARNING_SKILLS_def
      checkComment_def exceeds_def)

lemma validateData_blankEntry:
  "validateData blankEntry =
     Inr [''Teacher email is required'', ''Student name is required'', ''Grade is required'',
          ''Responsibility rating is required'', ''Organization rating is required'',
          ''Independent Work rating is required'', ''Collaboration rating is required'',
          ''Initiative rating is required'', ''Self-Regulation rating is required'',
          ''Comment is required'']"
  by (simp add: validateData_def blankEntry_def get_prop_def LEARNING_SKILLS_def
      checkComment_def)

lemma buildRowData_gradedEntry:
  "buildRowData clock (gradedEntry n) = Inr (gradedRow n (snd clock))"
  by (simp add: buildRowData_def gradedEntry_def gradedRow_def pushSkills_Obj LEARNING_SKILLS_def
      get_prop_def js_or_def)

lemma buildRowData_blankEntry: "buildRowData clock blankEntry = Inr (blankRow clock)"
  by (simp add: buildRowData_def blankEntry_def blankRow_def pushSkills_Obj LEARNING_SKILLS_def
      get_prop_def js_or_def)

lemma doPost_gradedEntry_fresh:
  "doPost clock None (gradedEntry n) =
     ([map JStr getHeaders, gradedRow n (snd clock)],
      Saved \<lparr>success = True, action = ''created'',
             student = JStr ''Test Student'', course = JStr ''Math 7A''\<rparr>)"
  by (simp add: doPost_def saveGradeEntry_def getOrCreateSheet_eq findStudentRow_header_only
      buildRowData_gradedEntry appendRow_def)
    (simp add: gradedEntry_def get_prop_def)

lemma doPost_blankEntry_fresh:
  "doPost clock None blankEntry =
     ([map JStr getHeaders, blankRow clock],
      Saved \<lparr>success = True, action = ''created'', student = JUndefined, course = JUndefined\<rparr>)"
  by (simp add: doPost_def saveGradeEntry_def getOrCreateSheet_eq findStudentRow_header_only
      buildRowData_blankEntry appendRow_def)
    (simp add: blankEntry_def get_prop_def)

text \<open>
  Claim C2 (where it fails). \<^verbatim>\<open>validateData\<close> accepts the graded entry with a comment
  of 500 characters and returns the message about the length for the same entry with
  501; \<^verbatim>\<open>doPost\<close>, which never calls \<^verbatim>\<open>validateData\<close>, appends the row of the
  501-character entry to a fresh sheet and answers with success. The entry that holds
  nothing but an empty skills object draws ten messages and is stored too. Neither
  answer carries a validation message.
\<close>

theorem doPost_skips_validation:
  "validateData (gradedEntry 500) = Inr []
   \<and> validateData (gradedEntry 501) = Inr [''Comment must be 500 characters or less'']
   \<and> doPost clock None (gradedEntry 501) =
       ([map JStr getHeaders, gradedRow 501 (snd clock)],
        Saved \<lparr>success = True, action = ''created'',
               student = JStr ''Test Student'', course = JStr ''Math 7A''\<rparr>)
   \<and> (\<exists>errs. validateData blankEntry = Inr errs \<and> length errs = 10)
   \<and> doPost clock None blankEntry =
       ([map JStr getHeaders, blankRow clock],
        Saved \<lparr>success = True, action = ''created'', student = JUndefined, course = JUndefined\<rparr>)"
  by (simp add: validateData_gradedEntry validateData_blankEntry doPost_gradedEntry_fresh
      doPost_blankEntry_fresh)

theorem doPost_skips_validation_witness:
  "validateData (gradedEntry 501) = Inr [''Comment must be 500 characters or less'']
   \<and> fst (doPost (''2024-01-01T00:00:05.000Z'', ''2024-01-01T00:00:05.001Z'') None
            (gradedEntry 501))
       = [map JStr getHeaders, gradedRow 501 ''2024-01-01T00:00:05.001Z'']
   \<and> length (fst (doPost (''2024-01-01T00:00:05.000Z'', ''2024-01-01T00:00:05.001Z'') None
            (gradedEntry 501))) = 2
   \<and> length (getOrCreateSheet None) = 1"
  using doPost_skips_validation[of "(''2024-01-01T00:00:05.000Z'', ''2024-01-01T00:00:05.001Z'')"]
  by (simp add: getOrCreateSheet_eq)

end
